theory Spec2Isabelle
  imports Main
begin

section \<open>JavaScript strings\<close>

text \<open>
  A JavaScript string is a sequence of UTF-16 code units; \<open>length\<close>, \<open>includes\<close>,
  \<open>startsWith\<close> and the regular expressions of the source all work on code units.
  A code unit is modelled as a natural number. ASCII literals are written through
  \<open>ascii\<close>; the three non-ASCII literals of the source are spelled out below.
\<close>

type_synonym jsstring = "nat list"

definition ascii :: "string \<Rightarrow> jsstring" where
  "ascii s = map of_char s"

text \<open>The rouble sign U+20BD.\<close>

definition rouble :: jsstring where
  "rouble = [8381]"

text \<open>The nine Cyrillic letters of the block-page word in the title checks.\<close>

definition ogranichen :: jsstring where
  "ogranichen = [1086, 1075, 1088, 1072, 1085, 1080, 1095, 1077, 1085]"

text \<open>The h1 text of the access-restricted page: two words, the second one as above.\<close>

definition dostupOgranichen :: jsstring where
  "dostupOgranichen = [1044, 1086, 1089, 1090, 1091, 1087, 32] @ ogranichen"

definition startsWith :: "jsstring \<Rightarrow> jsstring \<Rightarrow> bool" where
  "startsWith s t = (take (length t) s = t)"

fun jsIncludes :: "jsstring \<Rightarrow> jsstring \<Rightarrow> bool" where
  "jsIncludes [] t = (t = [])"
| "jsIncludes (c # cs) t = (startsWith (c # cs) t \<or> jsIncludes cs t)"

text \<open>\<open>\d\<close> without the unicode flag: the ten ASCII digits.\<close>

definition isDigit :: "nat \<Rightarrow> bool" where
  "isDigit c = (48 \<le> c \<and> c \<le> 57)"

text \<open>\<open>\s\<close>, which is also the set that \<open>trim\<close> strips: white space and line terminators.\<close>

definition isSpace :: "nat \<Rightarrow> bool" where
  "isSpace c = (c \<in> {9, 10, 11, 12, 13, 32, 160, 5760, 8232, 8233, 8239, 8287, 12288, 65279}
                \<or> (8192 \<le> c \<and> c \<le> 8202))"

definition trim :: "jsstring \<Rightarrow> jsstring" where
  "trim s = rev (dropWhile isSpace (rev (dropWhile isSpace s)))"

text \<open>\<open>s.split(sep)\<close> for a one-unit separator: never empty, one more piece than separators.\<close>

fun split :: "nat \<Rightarrow> jsstring \<Rightarrow> jsstring list" where
  "split sep [] = [[]]"
| "split sep (c # cs) =
     (if c = sep then [] # split sep cs
      else (case split sep cs of
              [] \<Rightarrow> [[c]]
            | p # ps \<Rightarrow> (c # p) # ps))"

text \<open>
  \<open>parseInt\<close> on a string of ASCII digits. The result is an unbounded integer here;
  JavaScript rounds beyond \<open>2^53\<close>, which no property below depends on.
\<close>

definition parseInt :: "jsstring \<Rightarrow> int" where
  "parseInt ds = foldl (\<lambda>a c. 10 * a + (int c - 48)) 0 ds"

section \<open>The in-page extraction of search results\<close>

text \<open>
  Both clients scrape the search page with a callback run by \<open>page.evaluate\<close>. The
  DOM it reads is modelled by what its queries return: an element by its \<open>innerText\<close>
  (absent on elements that are not HTML elements), a link by its \<open>href\<close> attribute,
  its own \<open>innerText\<close> and the ancestors the callback asks for.
\<close>

datatype element = Element (innerText: "jsstring option")

record link =
  href :: "jsstring option"
  linkText :: "jsstring option"
  closestDataIndex :: "element option"
  closestTile :: "element option"
  parent2 :: "element option"
  parent3 :: "element option"

text \<open>
  A card of the long-session client is what one of its selectors matched: an anchor, which
  is then taken as the link itself, or another element, whose first product link (if any)
  \<open>querySelector\<close> returns.
\<close>

datatype card = Anchor link | Box "link option"

text \<open>
  The scraped record. The source also fills \<open>priceFormatted\<close>, \<open>image\<close> and \<open>rating\<close>,
  by expressions over the same text that cannot raise; they are left out.
\<close>

record item =
  itemId :: jsstring
  itemUrl :: jsstring
  itemName :: jsstring
  itemPrice :: "int option"

text \<open>\<open>a || b\<close> on possibly-null elements.\<close>

definition orElse :: "'a option \<Rightarrow> 'a option \<Rightarrow> 'a option" where
  "orElse a b = (case a of Some x \<Rightarrow> Some x | None \<Rightarrow> b)"

text \<open>The digits captured by \<open>(\d+)\<close> at the head of a string, if there is one.\<close>

definition leadingDigits :: "jsstring \<Rightarrow> jsstring option" where
  "leadingDigits s = (case takeWhile isDigit s of [] \<Rightarrow> None | d # ds \<Rightarrow> Some (d # ds))"

text \<open>
  \<open>href.match(/\/product\/[^\/]+-(\d+)/)\<close> of the long-session client. Within the run of
  non-slash units after \<open>/product/\<close>, the greedy \<open>[^\/]+\<close> backtracks to the last dash that
  has at least one unit before it and a digit after it; \<open>lastDashDigits\<close> finds it, called
  on the run without its first unit.
\<close>

fun lastDashDigits :: "jsstring \<Rightarrow> jsstring option" where
  "lastDashDigits [] = None"
| "lastDashDigits (c # cs) =
     (case lastDashDigits cs of
        Some d \<Rightarrow> Some d
      | None \<Rightarrow> (if c = 45 then leadingDigits cs else None))"

fun matchProductId_A :: "jsstring \<Rightarrow> jsstring option" where
  "matchProductId_A [] = None"
| "matchProductId_A (c # cs) =
     (if startsWith (c # cs) (ascii ''/product/'')
      then (case takeWhile (\<lambda>u. u \<noteq> 47) (drop 9 (c # cs)) of
              [] \<Rightarrow> matchProductId_A cs
            | u # us \<Rightarrow> (case lastDashDigits us of
                          Some d \<Rightarrow> Some d
                        | None \<Rightarrow> matchProductId_A cs))
      else matchProductId_A cs)"

text \<open>
  \<open>href.match(/-(\d+)(?:\?|\/|$)/)\<close> of the fresh-session client: the first dash whose
  maximal run of digits is not empty and is followed by \<open>?\<close>, \<open>/\<close> or the end.
\<close>

fun matchProductId_B :: "jsstring \<Rightarrow> jsstring option" where
  "matchProductId_B [] = None"
| "matchProductId_B (c # cs) =
     (if c = 45 \<and> takeWhile isDigit cs \<noteq> []
         \<and> (case dropWhile isDigit cs of [] \<Rightarrow> True | u # us \<Rightarrow> u = 63 \<or> u = 47)
      then Some (takeWhile isDigit cs)
      else matchProductId_B cs)"

text \<open>\<open>text.split('\n').filter(l => l.trim())\<close>.\<close>

definition textLines :: "jsstring \<Rightarrow> jsstring list" where
  "textLines text = filter (\<lambda>l. trim l \<noteq> []) (split 10 text)"

text \<open>Group 1 of \<open>line.match(/(\d[\d\s]*)/)\<close>: from the first digit, the digits and spaces.\<close>

definition matchPrice :: "jsstring \<Rightarrow> jsstring option" where
  "matchPrice line =
     (case dropWhile (\<lambda>c. \<not> isDigit c) line of
        [] \<Rightarrow> None
      | d # r \<Rightarrow> Some (d # takeWhile (\<lambda>c. isDigit c \<or> isSpace c) r))"

text \<open>\<open>parseInt(match[1].replace(/\s/g, ''))\<close>.\<close>

definition priceOfMatch :: "jsstring \<Rightarrow> int" where
  "priceOfMatch m = parseInt (filter (\<lambda>c. \<not> isSpace c) m)"

text \<open>
  The price loop of the long-session client stops at the first line with a rouble sign,
  whether or not a number was found in it.
\<close>

fun findPrice_A :: "jsstring list \<Rightarrow> int option" where
  "findPrice_A [] = None"
| "findPrice_A (line # rest) =
     (if jsIncludes line rouble
      then (case matchPrice line of Some m \<Rightarrow> Some (priceOfMatch m) | None \<Rightarrow> None)
      else findPrice_A rest)"

text \<open>The price loop of the fresh-session client stops only once a number was found.\<close>

fun findPrice_B :: "jsstring list \<Rightarrow> int option" where
  "findPrice_B [] = None"
| "findPrice_B (line # rest) =
     (if jsIncludes line rouble
      then (case matchPrice line of Some m \<Rightarrow> Some (priceOfMatch m) | None \<Rightarrow> findPrice_B rest)
      else findPrice_B rest)"

text \<open>\<open>/^\d+%?$/\<close>, \<open>/^-\d+%$/\<close> and \<open>/^-?\d+%?$/\<close> on a line.\<close>

definition isPercentBadge :: "jsstring \<Rightarrow> bool" where
  "isPercentBadge s =
     (takeWhile isDigit s \<noteq> [] \<and> (dropWhile isDigit s = [] \<or> dropWhile isDigit s = [37]))"

definition isDiscountBadge :: "jsstring \<Rightarrow> bool" where
  "isDiscountBadge s =
     (case s of
        [] \<Rightarrow> False
      | c # cs \<Rightarrow> c = 45 \<and> takeWhile isDigit cs \<noteq> [] \<and> dropWhile isDigit cs = [37])"

definition isSignedBadge :: "jsstring \<Rightarrow> bool" where
  "isSignedBadge s =
     (case s of
        [] \<Rightarrow> False
      | c # cs \<Rightarrow> isPercentBadge (if c = 45 then cs else c # cs))"

fun findName_A :: "jsstring list \<Rightarrow> jsstring" where
  "findName_A [] = []"
| "findName_A (line # rest) =
     (let trimmed = trim line in
      if trimmed \<noteq> [] \<and> \<not> jsIncludes trimmed rouble \<and> \<not> isPercentBadge trimmed
         \<and> \<not> isDiscountBadge trimmed \<and> length trimmed > 10
      then trimmed else findName_A rest)"

fun findName_B :: "jsstring list \<Rightarrow> jsstring" where
  "findName_B [] = []"
| "findName_B (line # rest) =
     (let trimmed = trim line in
      if trimmed \<noteq> [] \<and> \<not> jsIncludes trimmed rouble \<and> \<not> isSignedBadge trimmed
         \<and> length trimmed > 15 \<and> length trimmed < 300
      then trimmed else findName_B rest)"

text \<open>
  What one pass through the body of the loop does: \<open>Skipped\<close> is a \<open>continue\<close>,
  \<open>Raised\<close> an exception caught by the \<open>catch\<close> around the body, \<open>Pushed\<close> an
  \<open>items.push\<close>. The second component is the \<open>seen\<close> set after the pass.
\<close>

datatype outcome = Skipped | Raised | Pushed item

definition cardLink :: "card \<Rightarrow> link option" where
  "cardLink c = (case c of Anchor l \<Rightarrow> Some l | Box l \<Rightarrow> l)"

text \<open>
  \<open>container ? container.innerText : link.innerText\<close>, with the container the closest
  \<open>[data-index]\<close> ancestor, else the closest tile, else the grandparent.
\<close>

definition containerText_A :: "link \<Rightarrow> jsstring option" where
  "containerText_A l =
     (case orElse (closestDataIndex l) (orElse (closestTile l) (parent2 l)) of
        Some container \<Rightarrow> innerText container
      | None \<Rightarrow> linkText l)"

definition cardBody_A :: "card \<Rightarrow> jsstring set \<Rightarrow> outcome \<times> jsstring set" where
  "cardBody_A c seen =
     (case cardLink c of
        None \<Rightarrow> (Skipped, seen)
      | Some l \<Rightarrow>
         (case href l of
            None \<Rightarrow> (Skipped, seen)
          | Some h \<Rightarrow>
             if h = [] \<or> \<not> jsIncludes h (ascii ''/product/'') then (Skipped, seen)
             else (case matchProductId_A h of
                     None \<Rightarrow> (Skipped, seen)
                   | Some i \<Rightarrow>
                      if i \<in> seen then (Skipped, seen)
                      else (case containerText_A l of
                              None \<Rightarrow> (Raised, insert i seen)
                            | Some text \<Rightarrow>
                               (Pushed \<lparr> itemId = i,
                                         itemUrl = ascii ''https://www.ozon.ru''
                                                   @ (if startsWith h [47] then h else 47 # h),
                                         itemName = (let n = findName_A (textLines text)
                                                     in if n = [] then ascii ''Unknown'' else n),
                                         itemPrice = findPrice_A (textLines text) \<rparr>,
                                insert i seen)))))"

text \<open>
  The container of the fresh-session client: the closest \<open>[data-index]\<close> ancestor, else the
  closest tile, else the great-grandparent. Its text is \<open>container.innerText || ''\<close>.
\<close>

definition container_B :: "link \<Rightarrow> element option" where
  "container_B l = orElse (closestDataIndex l) (orElse (closestTile l) (parent3 l))"

definition linkBody_B :: "link \<Rightarrow> jsstring set \<Rightarrow> outcome \<times> jsstring set" where
  "linkBody_B l seen =
     (case href l of
        None \<Rightarrow> (Skipped, seen)
      | Some h \<Rightarrow>
         if h = [] then (Skipped, seen)
         else (case matchProductId_B h of
                 None \<Rightarrow> (Skipped, seen)
               | Some i \<Rightarrow>
                  if i \<in> seen then (Skipped, seen)
                  else (case container_B l of
                          None \<Rightarrow> (Skipped, insert i seen)
                        | Some container \<Rightarrow>
                           (let text = (case innerText container of None \<Rightarrow> [] | Some t \<Rightarrow> t)
                            in (Pushed \<lparr> itemId = i,
                                         itemUrl = ascii ''https://www.ozon.ru''
                                                   @ (if startsWith h [47] then [] else [47])
                                                   @ hd (split 63 h),
                                         itemName = (let n = findName_B (textLines text)
                                                     in if n = [] then ascii ''Product '' @ i else n),
                                         itemPrice = findPrice_B (textLines text) \<rparr>,
                                insert i seen)))))"

text \<open>
  The loop over the cards, with the \<open>items\<close> array and the \<open>seen\<close> set as accumulators.
  \<open>maxResults\<close> is the \<open>limit\<close> option, a number of results.
\<close>

fun extractLoop :: "('c \<Rightarrow> jsstring set \<Rightarrow> outcome \<times> jsstring set) \<Rightarrow> nat \<Rightarrow> 'c list
                    \<Rightarrow> jsstring set \<Rightarrow> item list \<Rightarrow> item list" where
  "extractLoop body maxResults [] seen items = items"
| "extractLoop body maxResults (c # cs) seen items =
     (if length items \<ge> maxResults then items
      else (case body c seen of
              (Skipped, seen') \<Rightarrow> extractLoop body maxResults cs seen' items
            | (Raised, seen') \<Rightarrow> extractLoop body maxResults cs seen' items
            | (Pushed it, seen') \<Rightarrow> extractLoop body maxResults cs seen' (items @ [it])))"

text \<open>
  The long-session client tries five selectors in turn and keeps the first non-empty match
  list (the last one, empty, if none matched).
\<close>

fun pickCards :: "card list list \<Rightarrow> card list" where
  "pickCards [] = []"
| "pickCards (cards # rest) = (if length cards > 0 then cards else pickCards rest)"

definition extractSearch_A :: "nat \<Rightarrow> card list list \<Rightarrow> item list" where
  "extractSearch_A maxResults selected = extractLoop cardBody_A maxResults (pickCards selected) {} []"

definition extractSearch_B :: "nat \<Rightarrow> link list \<Rightarrow> item list" where
  "extractSearch_B maxResults links = extractLoop linkBody_B maxResults links {} []"

section \<open>Errors, the browser and the world\<close>

text \<open>
  The errors an operation can throw. The two clients throw plain \<open>Error\<close> objects with
  three messages: ``Unable to bypass captcha for product page'' and ``Product page blocked by
  antibot'' are \<open>BlockedError\<close>, ``Failed to load product page (access restricted)'' is
  \<open>NotFoundError\<close>. \<open>TypeError\<close> is a method call on a \<open>null\<close> page. \<open>LibError\<close> is
  whatever the browser library rejects with: the navigation timeout, or anything else.
\<close>

datatype lib_error = TimeoutError | OtherError

datatype error = BlockedError | NotFoundError | TypeError | LibError lib_error

text \<open>
  Where \<open>page.goto\<close> is sent. The URL of a search is built by string interpolation from the
  query, the sorting, the price range and the page number; the model keeps the four
  ingredients instead of the text. \<open>encodeURIComponent(query)\<close> throws a \<open>URIError\<close> on a
  query with a lone surrogate, before the search page is loaded; queries are taken to be well-formed
  strings, on which it returns.
\<close>

datatype target =
    Page jsstring
  | SearchPage jsstring "jsstring option" "(int \<times> int) option" "int option"

text \<open>The calls made to the browser library, the clock and the page, in the order made.\<close>

datatype event =
    Launch
  | Launched nat
  | NewContext
  | NewPage
  | AddInitScript
  | Goto target
  | WaitForTimeout nat
  | WaitRandom
  | MouseMove
  | MouseWheel
  | Title
  | Url
  | Evaluate
  | Close nat
  | DateNow

text \<open>
  The fields of a product page other than the title: the in-page callback reads them from
  widgets by regular expressions, and the model takes them as scraped.
\<close>

record fields =
  price :: "int option"
  oldPrice :: "int option"
  discount :: "int option"
  rating :: "jsstring option"
  reviewsCount :: "int option"
  images :: "jsstring list"
  characteristics :: "(jsstring \<times> jsstring) list"
  description :: "jsstring option"
  seller :: "jsstring option"
  inStock :: bool

text \<open>
  What the outside answers to one call: whether the call rejects, and every value a call
  may read (the clock, the title and URL of the page, the matches of the selectors). A call
  reads the fields it needs and ignores the others.
\<close>

record obs =
  failure :: "lib_error option"
  now :: int
  pageTitle :: jsstring
  pageUrl :: jsstring
  selectorMatches :: "card list list"
  productLinks :: "link list"
  h1 :: "jsstring option"
  scraped :: fields
  categoryLinks :: "(jsstring option \<times> jsstring option) list"

text \<open>
  The world outside the client: the answers to come (\<open>answer\<close>, indexed by the number of
  calls made so far, \<open>tick\<close>), the browser processes started (\<open>spawned\<close>) and still running
  (\<open>live\<close>), and the calls made (\<open>trace\<close>). A process runs from a successful
  \<open>chromium.launch\<close> until \<open>browser.close\<close> is called on it; a launch that rejects starts
  none.
\<close>

record world =
  answer :: "nat \<Rightarrow> obs"
  tick :: nat
  spawned :: nat
  live :: "nat set"
  trace :: "event list"

text \<open>A program takes the state and returns a value or a thrown error, and the new state.\<close>

type_synonym ('s, 'a) prog = "'s \<Rightarrow> (error + 'a) \<times> 's"

definition ret :: "'a \<Rightarrow> ('s, 'a) prog" where
  "ret x s = (Inr x, s)"

definition throw :: "error \<Rightarrow> ('s, 'a) prog" where
  "throw e s = (Inl e, s)"

definition bnd :: "('s, 'a) prog \<Rightarrow> ('a \<Rightarrow> ('s, 'b) prog) \<Rightarrow> ('s, 'b) prog" where
  "bnd m f s = (case m s of (Inl e, s') \<Rightarrow> (Inl e, s') | (Inr x, s') \<Rightarrow> f x s')"

definition thn :: "('s, 'a) prog \<Rightarrow> ('s, 'b) prog \<Rightarrow> ('s, 'b) prog" where
  "thn m k = bnd m (\<lambda>_. k)"

definition tryCatch :: "('s, 'a) prog \<Rightarrow> (error \<Rightarrow> ('s, 'a) prog) \<Rightarrow> ('s, 'a) prog" where
  "tryCatch m h s = (case m s of (Inl e, s') \<Rightarrow> h e s' | (Inr x, s') \<Rightarrow> (Inr x, s'))"

definition getClient :: "('c \<times> world, 'c) prog" where
  "getClient s = (Inr (fst s), s)"

definition modifyClient :: "('c \<Rightarrow> 'c) \<Rightarrow> ('c \<times> world, unit) prog" where
  "modifyClient f s = (Inr (), (f (fst s), snd s))"

text \<open>The next answer, with the call recorded.\<close>

definition step :: "event \<Rightarrow> world \<Rightarrow> world" where
  "step ev w = w\<lparr>tick := Suc (tick w), trace := trace w @ [ev]\<rparr>"

text \<open>An asynchronous call of the library: it rejects or yields what it reads.\<close>

definition browserCall :: "event \<Rightarrow> (obs \<Rightarrow> 'a) \<Rightarrow> ('c \<times> world, 'a) prog" where
  "browserCall ev rd s =
     (let ob = answer (snd s) (tick (snd s)) in
      case failure ob of
        Some e \<Rightarrow> (Inl (LibError e), (fst s, step ev (snd s)))
      | None \<Rightarrow> (Inr (rd ob), (fst s, step ev (snd s))))"

text \<open>A synchronous read (\<open>Date.now()\<close>, \<open>page.url()\<close>): it cannot reject.\<close>

definition browserRead :: "event \<Rightarrow> (obs \<Rightarrow> 'a) \<Rightarrow> ('c \<times> world, 'a) prog" where
  "browserRead ev rd s = (Inr (rd (answer (snd s) (tick (snd s)))), (fst s, step ev (snd s)))"

definition launch :: "('c \<times> world, nat) prog" where
  "launch s =
     (let w = snd s in
      case failure (answer w (tick w)) of
        Some e \<Rightarrow> (Inl (LibError e), (fst s, step Launch w))
      | None \<Rightarrow> (Inr (spawned w),
                 (fst s, (step (Launched (spawned w)) w)
                           \<lparr>spawned := Suc (spawned w), live := insert (spawned w) (live w)\<rparr>)))"

definition browserClose :: "nat \<Rightarrow> ('c \<times> world, unit) prog" where
  "browserClose b s =
     (let w = snd s; w' = (step (Close b) w)\<lparr>live := live w - {b}\<rparr> in
      case failure (answer w (tick w)) of
        Some e \<Rightarrow> (Inl (LibError e), (fst s, w'))
      | None \<Rightarrow> (Inr (), (fst s, w')))"

definition homepage :: target where
  "homepage = Page (ascii ''https://www.ozon.ru/'')"

section \<open>What both clients share\<close>

record client =
  browser :: "nat option"
  ctx :: "nat option"
  page :: "nat option"

text \<open>The \<open>options\<close> argument of \<open>search\<close>; an absent key is \<open>None\<close>.\<close>

record options =
  sortKey :: "jsstring option"
  pageNum :: "int option"
  priceMin :: "int option"
  priceMax :: "int option"
  limit :: "nat option"

text \<open>
  The lookup \<open>sortMap[sort]\<close> in the object literal, for the six keys the literal has. A key
  that the literal inherits from \<open>Object.prototype\<close> (such as \<open>constructor\<close>) also yields a
  truthy value in the source; such keys are treated as unknown here.
\<close>

definition sortMap :: "jsstring \<Rightarrow> jsstring option" where
  "sortMap k =
     (if k = ascii ''popular'' then Some (ascii ''score'')
      else if k = ascii ''price'' then Some (ascii ''price'')
      else if k = ascii ''price_desc'' then Some (ascii ''price_desc'')
      else if k = ascii ''new'' then Some (ascii ''new'')
      else if k = ascii ''rating'' then Some (ascii ''rating'')
      else if k = ascii ''discount'' then Some (ascii ''discount'')
      else None)"

text \<open>A number option is truthy when it is present and not zero.\<close>

definition truthy :: "int option \<Rightarrow> bool" where
  "truthy v = (case v of None \<Rightarrow> False | Some n \<Rightarrow> n \<noteq> 0)"

text \<open>\<open>v || d\<close> on a number option.\<close>

definition orNumber :: "int option \<Rightarrow> int \<Rightarrow> int" where
  "orNumber v d = (case v of None \<Rightarrow> d | Some n \<Rightarrow> if n = 0 then d else n)"

definition searchUrl :: "jsstring \<Rightarrow> options \<Rightarrow> target" where
  "searchUrl query opts =
     SearchPage query
       (sortMap (case sortKey opts of None \<Rightarrow> ascii ''popular'' | Some k \<Rightarrow> k))
       (if truthy (priceMin opts) \<or> truthy (priceMax opts)
        then Some (orNumber (priceMin opts) 0, orNumber (priceMax opts) 9999999)
        else None)
       (case pageNum opts of None \<Rightarrow> None | Some n \<Rightarrow> if n > 1 then Some n else None)"

definition limitOf :: "options \<Rightarrow> nat" where
  "limitOf opts = (case limit opts of None \<Rightarrow> 20 | Some n \<Rightarrow> n)"

definition productUrl :: "jsstring \<Rightarrow> target" where
  "productUrl productIdOrUrl =
     Page (if \<not> startsWith productIdOrUrl (ascii ''http'')
           then ascii ''https://www.ozon.ru/product/'' @ productIdOrUrl @ ascii ''/''
           else productIdOrUrl)"

text \<open>\<open>currentUrl.match(/-(\d+)/)\<close>: the digits after the first dash that has a digit after it.\<close>

fun matchId :: "jsstring \<Rightarrow> jsstring option" where
  "matchId [] = None"
| "matchId (c # cs) =
     (if c = 45
      then (case leadingDigits cs of Some d \<Rightarrow> Some d | None \<Rightarrow> matchId cs)
      else matchId cs)"

record product =
  title :: "jsstring option"
  details :: fields
  productId :: "jsstring option"
  url :: jsstring

text \<open>\<open>h1?.innerText?.trim() || null\<close>.\<close>

definition scrapeTitle :: "jsstring option \<Rightarrow> jsstring option" where
  "scrapeTitle t =
     (case t of
        None \<Rightarrow> None
      | Some x \<Rightarrow> if trim x = [] then None else Some (trim x))"

text \<open>An entry of the batch result: a product, or the placeholder \<open>{id, error}\<close>.\<close>

datatype entry = Fetched product | Placeholder jsstring error

section \<open>The fresh-session client (policy B)\<close>

definition constructor_B :: client where
  "constructor_B = \<lparr>browser = None, ctx = None, page = None\<rparr>"

text \<open>\<open>close\<close>: an error of \<open>browser.close\<close> is caught and ignored.\<close>

definition close_B :: "(client \<times> world, unit) prog" where
  "close_B =
     bnd getClient (\<lambda>c.
       case browser c of
         None \<Rightarrow> ret ()
       | Some b \<Rightarrow>
           thn (tryCatch (browserClose b) (\<lambda>e. ret ()))
               (modifyClient (\<lambda>c. c\<lparr>browser := None, ctx := None, page := None\<rparr>)))"

definition createBrowser_B :: "(client \<times> world, nat) prog" where
  "createBrowser_B =
     thn close_B
    (bnd launch (\<lambda>b.
     thn (modifyClient (\<lambda>c. c\<lparr>browser := Some b\<rparr>))
    (thn (browserCall NewContext (\<lambda>_. ()))
    (thn (modifyClient (\<lambda>c. c\<lparr>ctx := Some b\<rparr>))
    (thn (browserCall NewPage (\<lambda>_. ()))
    (thn (modifyClient (\<lambda>c. c\<lparr>page := Some b\<rparr>))
         (ret b)))))))"

definition loadPage_B :: "target \<Rightarrow> nat \<Rightarrow> (client \<times> world, nat \<times> jsstring) prog" where
  "loadPage_B u waitTime =
     bnd createBrowser_B (\<lambda>p.
     thn (browserCall (Goto u) (\<lambda>_. ()))
    (thn (browserCall (WaitForTimeout waitTime) (\<lambda>_. ()))
    (bnd (browserCall Title pageTitle) (\<lambda>t.
         ret (p, t)))))"

text \<open>The title check of this client: two signatures.\<close>

definition isBlocked_B :: "jsstring \<Rightarrow> bool" where
  "isBlocked_B t = (jsIncludes t (ascii ''Antibot'') \<or> jsIncludes t ogranichen)"

definition search_B :: "jsstring \<Rightarrow> options \<Rightarrow> (client \<times> world, item list) prog" where
  "search_B query opts =
     tryCatch
       (bnd (loadPage_B (searchUrl query opts) 15000) (\<lambda>(p, t).
          if isBlocked_B t
          then thn close_B (ret [])
          else bnd (browserCall Evaluate (\<lambda>ob. extractSearch_B (limitOf opts) (productLinks ob)))
                 (\<lambda>products. thn close_B (ret products))))
       (\<lambda>e. thn close_B (throw e))"

definition getProductDetails_B :: "jsstring \<Rightarrow> (client \<times> world, product) prog" where
  "getProductDetails_B productIdOrUrl =
     tryCatch
       (bnd (loadPage_B homepage 10000) (\<lambda>(homePage, t).
        bnd (browserCall Title pageTitle) (\<lambda>homeTitle.
        thn (browserCall (Goto (productUrl productIdOrUrl)) (\<lambda>_. ()))
       (thn (browserCall (WaitForTimeout 15000) (\<lambda>_. ()))
       (bnd (browserCall Title pageTitle) (\<lambda>productTitle.
          if isBlocked_B productTitle
          then thn close_B (throw BlockedError)
          else bnd (browserCall Evaluate (\<lambda>ob. (scrapeTitle (h1 ob), scraped ob))) (\<lambda>(t, fs).
               bnd (browserRead Url pageUrl) (\<lambda>currentUrl.
               thn close_B
                   (ret \<lparr>title = t, details = fs,
                         productId = matchId currentUrl, url = currentUrl\<rparr>)))))))))
       (\<lambda>e. thn close_B (throw e))"



text \<open>The category links of the home page: \<open>(href, innerText?.trim())\<close> of each link.\<close>

fun categoryLoop :: "(jsstring option \<times> jsstring option) list \<Rightarrow> jsstring set
                     \<Rightarrow> (jsstring \<times> jsstring) list \<Rightarrow> (jsstring \<times> jsstring) list" where
  "categoryLoop [] seen result = result"
| "categoryLoop ((h, n) # rest) seen result =
     (case (h, n) of
        (Some hr, Some name) \<Rightarrow>
          if hr \<noteq> [] \<and> name \<noteq> [] \<and> length name > 1 \<and> length name < 100 \<and> hr \<notin> seen
          then categoryLoop rest (insert hr seen)
                 (result @ [(name, if startsWith hr (ascii ''http'') then hr
                                   else ascii ''https://www.ozon.ru'' @ hr)])
          else categoryLoop rest seen result
      | _ \<Rightarrow> categoryLoop rest seen result)"

definition getCategories_B :: "(client \<times> world, (jsstring \<times> jsstring) list) prog" where
  "getCategories_B =
     tryCatch
       (bnd (loadPage_B homepage 10000) (\<lambda>(p, t).
        bnd (browserCall Evaluate (\<lambda>ob. categoryLoop (categoryLinks ob) {} [])) (\<lambda>categories.
        thn close_B (ret categories))))
       (\<lambda>e. thn close_B (throw e))"

section \<open>The long-session client (policy A)\<close>

record client_A = client +
  isInitialized :: bool
  lastHomepageVisit :: int
  homepageVisitInterval :: int

definition constructor_A :: client_A where
  "constructor_A = \<lparr>browser = None, ctx = None, page = None, isInitialized = False,
                    lastHomepageVisit = 0, homepageVisitInterval = 5 * 60 * 1000\<rparr>"

text \<open>A method call on \<open>this.page\<close>: a \<open>TypeError\<close> when the page is \<open>null\<close>.\<close>

definition pageCall :: "event \<Rightarrow> (obs \<Rightarrow> 'a) \<Rightarrow> (client_A \<times> world, 'a) prog" where
  "pageCall ev rd =
     bnd getClient (\<lambda>c.
       case page c of None \<Rightarrow> throw TypeError | Some p \<Rightarrow> browserCall ev rd)"

definition pageRead :: "event \<Rightarrow> (obs \<Rightarrow> 'a) \<Rightarrow> (client_A \<times> world, 'a) prog" where
  "pageRead ev rd =
     bnd getClient (\<lambda>c.
       case page c of None \<Rightarrow> throw TypeError | Some p \<Rightarrow> browserRead ev rd)"

text \<open>Three pointer moves with a random pause each, a scroll, a fixed pause.\<close>

definition simulateHumanBehavior_A :: "(client_A \<times> world, unit) prog" where
  "simulateHumanBehavior_A =
     thn (pageCall MouseMove (\<lambda>_. ()))
    (thn (pageCall WaitRandom (\<lambda>_. ()))
    (thn (pageCall MouseMove (\<lambda>_. ()))
    (thn (pageCall WaitRandom (\<lambda>_. ()))
    (thn (pageCall MouseMove (\<lambda>_. ()))
    (thn (pageCall WaitRandom (\<lambda>_. ()))
    (thn (pageCall MouseWheel (\<lambda>_. ()))
         (pageCall (WaitForTimeout 500) (\<lambda>_. ()))))))))"

definition visitHomepage_A :: "bool \<Rightarrow> (client_A \<times> world, unit) prog" where
  "visitHomepage_A force =
     bnd (browserRead DateNow now) (\<lambda>t.
     bnd getClient (\<lambda>c.
       if \<not> force \<and> t - lastHomepageVisit c < homepageVisitInterval c \<and> lastHomepageVisit c > 0
       then ret ()
       else thn (pageCall (Goto homepage) (\<lambda>_. ()))
           (thn (pageCall (WaitForTimeout 8000) (\<lambda>_. ()))
           (thn simulateHumanBehavior_A
           (thn (pageCall (WaitForTimeout 3000) (\<lambda>_. ()))
           (thn (modifyClient (\<lambda>c. c\<lparr>lastHomepageVisit := t\<rparr>))
           (thn (pageCall Title pageTitle)
                (ret ()))))))))"

definition init_A :: "(client_A \<times> world, unit) prog" where
  "init_A =
     bnd getClient (\<lambda>c.
       if isInitialized c then ret ()
       else bnd launch (\<lambda>b.
            thn (modifyClient (\<lambda>c. c\<lparr>browser := Some b\<rparr>))
           (thn (browserCall NewContext (\<lambda>_. ()))
           (thn (modifyClient (\<lambda>c. c\<lparr>ctx := Some b\<rparr>))
           (thn (browserCall NewPage (\<lambda>_. ()))
           (thn (modifyClient (\<lambda>c. c\<lparr>page := Some b\<rparr>))
           (thn (pageCall AddInitScript (\<lambda>_. ()))
           (thn (visitHomepage_A False)
                (modifyClient (\<lambda>c. c\<lparr>isInitialized := True\<rparr>))))))))))"

text \<open>\<open>close\<close>: an error of \<open>browser.close\<close> propagates, and the handles stay.\<close>

definition close_A :: "(client_A \<times> world, unit) prog" where
  "close_A =
     bnd getClient (\<lambda>c.
       case browser c of
         None \<Rightarrow> ret ()
       | Some b \<Rightarrow>
           thn (browserClose b)
               (modifyClient (\<lambda>c. c\<lparr>browser := None, ctx := None, page := None,
                                     isInitialized := False\<rparr>)))"

text \<open>The title check of this client: three signatures.\<close>

definition isBlocked_A :: "jsstring \<Rightarrow> bool" where
  "isBlocked_A t = (jsIncludes t (ascii ''Antibot'') \<or> jsIncludes t (ascii ''Captcha'')
                    \<or> jsIncludes t ogranichen)"

definition hasCaptcha_A :: "(client_A \<times> world, bool) prog" where
  "hasCaptcha_A = bnd (pageCall Title pageTitle) (\<lambda>t. ret (isBlocked_A t))"

definition search_A :: "jsstring \<Rightarrow> options \<Rightarrow> (client_A \<times> world, item list) prog" where
  "search_A query opts =
     thn init_A
    (thn (visitHomepage_A False)
    (thn (pageCall (Goto (searchUrl query opts)) (\<lambda>_. ()))
    (thn (pageCall (WaitForTimeout 12000) (\<lambda>_. ()))
    (thn simulateHumanBehavior_A
    (thn (pageCall (WaitForTimeout 3000) (\<lambda>_. ()))
    (bnd hasCaptcha_A (\<lambda>captcha.
     thn (if captcha
          then thn (modifyClient (\<lambda>c. c\<lparr>lastHomepageVisit := 0\<rparr>))
              (thn (visitHomepage_A True)
              (thn (pageCall (WaitForTimeout 5000) (\<lambda>_. ()))
              (thn (pageCall (Goto (searchUrl query opts)) (\<lambda>_. ()))
              (thn (pageCall (WaitForTimeout 15000) (\<lambda>_. ()))
                   simulateHumanBehavior_A))))
          else ret ())
    (bnd (pageCall Title pageTitle) (\<lambda>t.
     pageCall Evaluate (\<lambda>ob. extractSearch_A (limitOf opts) (selectorMatches ob)))))))))))"

definition getProductDetails_A :: "jsstring \<Rightarrow> (client_A \<times> world, product) prog" where
  "getProductDetails_A productIdOrUrl =
     thn init_A
    (thn (visitHomepage_A False)
    (thn (pageCall (Goto (productUrl productIdOrUrl)) (\<lambda>_. ()))
    (thn (pageCall (WaitForTimeout 15000) (\<lambda>_. ()))
    (thn simulateHumanBehavior_A
    (bnd hasCaptcha_A (\<lambda>captcha.
     thn (if captcha
          then thn (pageCall (WaitForTimeout 5000) (\<lambda>_. ()))
              (thn (visitHomepage_A False)
              (thn (pageCall (Goto (productUrl productIdOrUrl)) (\<lambda>_. ()))
              (thn (pageCall (WaitForTimeout 15000) (\<lambda>_. ()))
              (bnd hasCaptcha_A (\<lambda>again.
                 if again then throw BlockedError else ret ())))))
          else ret ())
    (bnd (pageRead Url pageUrl) (\<lambda>currentUrl.
     bnd (pageCall Title pageTitle) (\<lambda>t.
     bnd (pageCall Evaluate (\<lambda>ob. (scrapeTitle (h1 ob), scraped ob))) (\<lambda>(t, fs).
       if t = Some dostupOgranichen \<or> t = None
       then throw NotFoundError
       else ret \<lparr>title = t, details = fs,
                 productId = matchId currentUrl, url = currentUrl\<rparr>))))))))))"

text \<open>The batch loop; the pause after each item is outside the \<open>try\<close>.\<close>

fun productsLoop_A :: "jsstring list \<Rightarrow> entry list \<Rightarrow> (client_A \<times> world, entry list) prog" where
  "productsLoop_A [] results = ret results"
| "productsLoop_A (i # ids) results =
     bnd (tryCatch (bnd (getProductDetails_A i) (\<lambda>p. ret (results @ [Fetched p])))
                   (\<lambda>e. ret (results @ [Placeholder i e])))
         (\<lambda>results'.
            thn (pageCall (WaitForTimeout 2000) (\<lambda>_. ()))
                (productsLoop_A ids results'))"

definition getProductsList_A :: "jsstring list \<Rightarrow> (client_A \<times> world, entry list) prog" where
  "getProductsList_A productIds = productsLoop_A productIds []"

section \<open>Notions the properties are stated with\<close>


text \<open>
  Which browser processes are accounted for. \<open>held L\<close>: every running process is in \<open>L\<close>
  or is the one the client has a handle to. \<open>released L\<close>: the client has no browser handle
  and every running process is in \<open>L\<close>.
\<close>

definition held :: "nat set \<Rightarrow> client \<times> world \<Rightarrow> bool" where
  "held L s = (live (snd s) \<subseteq> L \<union> set_option (browser (fst s)))"

definition released :: "nat set \<Rightarrow> client \<times> world \<Rightarrow> bool" where
  "released L s = (browser (fst s) = None \<and> live (snd s) \<subseteq> L)"

text \<open>
  A URL matches the product-id pattern when a dash in it is directly followed by a digit.
\<close>

fun hasProductId :: "jsstring \<Rightarrow> bool" where
  "hasProductId (c # d # cs) = ((c = 45 \<and> isDigit d) \<or> hasProductId (d # cs))"
| "hasProductId cs = False"

text \<open>
  The states the long-session client can be in: once marked as initialised it has a page.
\<close>

definition wf_A :: "client_A \<Rightarrow> bool" where
  "wf_A c = (isInitialized c \<longrightarrow> page c \<noteq> None)"

text \<open>
  \<open>sees P s\<close>: the long-session client has a page, and the answers of the outside satisfy
  \<open>P\<close>. \<open>alwaysBlocked\<close>: the site answers every title query with a block signature.
\<close>

definition sees :: "((nat \<Rightarrow> obs) \<Rightarrow> bool) \<Rightarrow> client_A \<times> world \<Rightarrow> bool" where
  "sees P s = (page (fst s) \<noteq> None \<and> P (answer (snd s)))"

definition alwaysBlocked :: "(jsstring \<Rightarrow> bool) \<Rightarrow> (nat \<Rightarrow> obs) \<Rightarrow> bool" where
  "alwaysBlocked sig a = (\<forall>n. sig (pageTitle (a n)))"








text \<open>
  A warm-up is a navigation to the home page; \<open>warmups\<close> counts them in a trace.
  \<open>fresh c t\<close> is the test of \<open>visitHomepage\<close>: at clock reading \<open>t\<close>, the last warm-up of
  client \<open>c\<close> is within the freshness window. \<open>neverBlocked\<close>: the site answers no title
  query with a block signature of the long-session client.
\<close>

definition warmups :: "event list \<Rightarrow> nat" where
  "warmups tr = length (filter (\<lambda>e. e = Goto homepage) tr)"

definition fresh :: "client_A \<Rightarrow> int \<Rightarrow> bool" where
  "fresh c t = (t - lastHomepageVisit c < homepageVisitInterval c \<and> lastHomepageVisit c > 0)"

definition neverBlocked :: "(nat \<Rightarrow> obs) \<Rightarrow> bool" where
  "neverBlocked a = (\<forall>n. \<not> isBlocked_A (pageTitle (a n)))"

text \<open>
  \<open>same s s'\<close>: from \<open>s\<close> to \<open>s'\<close> the client, the answers to come and the number of warm-ups
  did not change. \<open>warmed t s s'\<close>: one warm-up was made, and recorded at clock reading \<open>t\<close>.
\<close>

definition same :: "client_A \<times> world \<Rightarrow> client_A \<times> world \<Rightarrow> bool" where
  "same s s' = (fst s' = fst s \<and> answer (snd s') = answer (snd s)
                \<and> warmups (trace (snd s')) = warmups (trace (snd s)))"

definition warmed :: "int \<Rightarrow> client_A \<times> world \<Rightarrow> client_A \<times> world \<Rightarrow> bool" where
  "warmed t s s' = (fst s' = (fst s)\<lparr>lastHomepageVisit := t\<rparr> \<and> answer (snd s') = answer (snd s)
                    \<and> warmups (trace (snd s')) = Suc (warmups (trace (snd s))))"

text \<open>
  \<open>leads P m Q\<close>: started with a client that satisfies \<open>P\<close>, the program \<open>m\<close> leaves a client
  that satisfies \<open>Q\<close>, whether it returns or throws.
\<close>

definition leads :: "(client_A \<Rightarrow> bool) \<Rightarrow> (client_A \<times> world, 'a) prog \<Rightarrow> (client_A \<Rightarrow> bool) \<Rightarrow> bool" where
  "leads P m Q = (\<forall>s. P (fst s) \<longrightarrow> Q (fst (snd (m s))))"

section \<open>Sample pages and worlds\<close>

text \<open>Concrete inputs, on which the theorems below are instantiated.\<close>

definition blankFields :: fields where
  "blankFields = \<lparr>price = None, oldPrice = None, discount = None, rating = None,
     reviewsCount = None, images = [], characteristics = [], description = None,
     seller = None, inStock = True\<rparr>"

definition tile :: "string \<Rightarrow> string option \<Rightarrow> link" where
  "tile h t = \<lparr>href = Some (ascii h), linkText = None,
               closestDataIndex = Some (Element (map_option ascii t)), closestTile = None,
               parent2 = None, parent3 = None\<rparr>"

text \<open>A product link inside a tile that shows only a name, and one inside an SVG tile.\<close>

definition potLink :: link where
  "potLink = tile ''/product/pot-12'' (Some ''Pot'')"

definition svgLink :: link where
  "svgLink = tile ''/product/cup-7'' None"

text \<open>
  A page with three product links, the second a duplicate of the first; the title is not
  a block signature, and the URL carries a product id.
\<close>

definition shopPage :: obs where
  "shopPage = \<lparr>failure = None, now = 1000, pageTitle = ascii ''Shop'',
     pageUrl = ascii ''/product/pot-12/'',
     selectorMatches = [[Anchor (tile ''/product/pot-12'' (Some ''Pot'')),
                         Anchor (tile ''/product/pot-12'' (Some ''Pot'')),
                         Anchor (tile ''/product/cup-7'' (Some ''Cup''))]],
     productLinks = [tile ''/product/pot-12'' (Some ''Pot''),
                     tile ''/product/pot-12'' (Some ''Pot''),
                     tile ''/product/cup-7'' (Some ''Cup'')],
     h1 = Some (ascii ''Pot''), scraped = blankFields, categoryLinks = []\<rparr>"


text \<open>The page the site serves to a client it has blocked.\<close>

definition blockPage :: obs where
  "blockPage = shopPage\<lparr>pageTitle := ascii ''Antibot Challenge Page'',
     selectorMatches := [], productLinks := [], h1 := None\<rparr>"

text \<open>A call that rejects.\<close>

definition timedOut :: obs where
  "timedOut = shopPage\<lparr>failure := Some TimeoutError\<rparr>"

text \<open>A call that rejects with something other than a timeout.\<close>

definition rejecting :: obs where
  "rejecting = \<lparr>failure = Some OtherError, now = 1000, pageTitle = [], pageUrl = [],
     selectorMatches = [], productLinks = [], h1 = None, scraped = blankFields,
     categoryLinks = []\<rparr>"

text \<open>The shop page, answered when the clock reads 400000.\<close>

definition latePage :: obs where
  "latePage = shopPage\<lparr>now := 400000\<rparr>"

definition world0 :: "(nat \<Rightarrow> obs) \<Rightarrow> world" where
  "world0 a = \<lparr>answer = a, tick = 0, spawned = 0, live = {}, trace = []\<rparr>"

definition noOptions :: options where
  "noOptions = \<lparr>sortKey = None, pageNum = None, priceMin = None, priceMax = None,
                 limit = None\<rparr>"

text \<open>
  The long-session client and its world right after a first \<open>init\<close> in which every call
  succeeded and the clock read 1000.
\<close>

definition afterInit :: "(nat \<Rightarrow> obs) \<Rightarrow> client_A \<times> world" where
  "afterInit a =
     (constructor_A\<lparr>browser := Some 0, ctx := Some 0, page := Some 0, isInitialized := True,
                    lastHomepageVisit := 1000\<rparr>,
      \<lparr>answer = a, tick = 17, spawned = 1, live = {0},
       trace = [Launched 0, NewContext, NewPage, AddInitScript, DateNow, Goto homepage,
                WaitForTimeout 8000, MouseMove, WaitRandom, MouseMove, WaitRandom, MouseMove,
                WaitRandom, MouseWheel, WaitForTimeout 500, WaitForTimeout 3000, Title]\<rparr>)"

text \<open>
  The same client after an \<open>init\<close> whose navigation to the home page timed out: the browser
  runs, and the client is not marked as initialised.
\<close>

definition afterFailedInit :: "(nat \<Rightarrow> obs) \<Rightarrow> client_A \<times> world" where
  "afterFailedInit a =
     (constructor_A\<lparr>browser := Some 0, ctx := Some 0, page := Some 0\<rparr>,
      \<lparr>answer = a, tick = 6, spawned = 1, live = {0},
       trace = [Launched 0, NewContext, NewPage, AddInitScript, DateNow, Goto homepage]\<rparr>)"

section \<open>Weakest preconditions\<close>

text \<open>
  \<open>wp m Q E s\<close>: run from \<open>s\<close>, the program \<open>m\<close> returns a value and a state that satisfy
  \<open>Q\<close>, or throws an error and leaves a state that satisfy \<open>E\<close>.
\<close>

definition wp :: "('s, 'a) prog \<Rightarrow> ('a \<Rightarrow> 's \<Rightarrow> bool) \<Rightarrow> (error \<Rightarrow> 's \<Rightarrow> bool) \<Rightarrow> 's \<Rightarrow> bool" where
  "wp m Q E s = (case m s of (Inl e, s') \<Rightarrow> E e s' | (Inr x, s') \<Rightarrow> Q x s')"

lemma wp_ret [simp]: "wp (ret x) Q E s = Q x s"
  by (simp add: wp_def ret_def)

lemma wp_throw [simp]: "wp (throw e) Q E s = E e s"
  by (simp add: wp_def throw_def)

lemma wp_bnd [simp]: "wp (bnd m f) Q E s = wp m (\<lambda>x. wp (f x) Q E) E s"
  by (simp add: wp_def bnd_def split: prod.splits sum.splits)

lemma wp_thn [simp]: "wp (thn m k) Q E s = wp m (\<lambda>_. wp k Q E) E s"
  by (simp add: thn_def)

lemma wp_tryCatch [simp]: "wp (tryCatch m h) Q E s = wp m Q (\<lambda>e. wp (h e) Q E) s"
  by (simp add: wp_def tryCatch_def split: prod.splits sum.splits)

lemma wp_getClient [simp]: "wp getClient Q E s = Q (fst s) s"
  by (simp add: wp_def getClient_def)

lemma wp_modifyClient [simp]: "wp (modifyClient f) Q E s = Q () (f (fst s), snd s)"
  by (simp add: wp_def modifyClient_def)

lemma wp_browserCall [simp]:
  "wp (browserCall ev rd) Q E s =
     (case failure (answer (snd s) (tick (snd s))) of
        Some e \<Rightarrow> E (LibError e) (fst s, step ev (snd s))
      | None \<Rightarrow> Q (rd (answer (snd s) (tick (snd s)))) (fst s, step ev (snd s)))"
  by (simp add: wp_def browserCall_def Let_def split: option.splits)

lemma wp_browserRead [simp]:
  "wp (browserRead ev rd) Q E s =
     Q (rd (answer (snd s) (tick (snd s)))) (fst s, step ev (snd s))"
  by (simp add: wp_def browserRead_def)

lemma wp_launch [simp]:
  "wp launch Q E s =
     (case failure (answer (snd s) (tick (snd s))) of
        Some e \<Rightarrow> E (LibError e) (fst s, step Launch (snd s))
      | None \<Rightarrow> Q (spawned (snd s))
                 (fst s, (step (Launched (spawned (snd s))) (snd s))
                           \<lparr>spawned := Suc (spawned (snd s)),
                            live := insert (spawned (snd s)) (live (snd s))\<rparr>))"
  by (simp add: wp_def launch_def Let_def split: option.splits)

lemma wp_browserClose [simp]:
  "wp (browserClose b) Q E s =
     (case failure (answer (snd s) (tick (snd s))) of
        Some e \<Rightarrow> E (LibError e) (fst s, (step (Close b) (snd s))\<lparr>live := live (snd s) - {b}\<rparr>)
      | None \<Rightarrow> Q () (fst s, (step (Close b) (snd s))\<lparr>live := live (snd s) - {b}\<rparr>))"
  by (simp add: wp_def browserClose_def Let_def split: option.splits)

lemma wp_pageCall [simp]:
  "wp (pageCall ev rd) Q E s =
     (case page (fst s) of
        None \<Rightarrow> E TypeError s
      | Some p \<Rightarrow> wp (browserCall ev rd) Q E s)"
  by (simp add: pageCall_def split: option.splits)

lemma wp_pageRead [simp]:
  "wp (pageRead ev rd) Q E s =
     (case page (fst s) of
        None \<Rightarrow> E TypeError s
      | Some p \<Rightarrow> wp (browserRead ev rd) Q E s)"
  by (simp add: pageRead_def split: option.splits)

lemma wp_mono:
  "wp m Q E s \<Longrightarrow> (\<And>x s'. Q x s' \<Longrightarrow> Q' x s') \<Longrightarrow> (\<And>e s'. E e s' \<Longrightarrow> E' e s')
   \<Longrightarrow> wp m Q' E' s"
  by (auto simp: wp_def split: prod.splits sum.splits)

lemma wp_returns: "wp m Q E s \<Longrightarrow> m s = (Inr x, s') \<Longrightarrow> Q x s'"
  by (simp add: wp_def)

lemma wp_throws: "wp m Q E s \<Longrightarrow> m s = (Inl e, s') \<Longrightarrow> E e s'"
  by (simp add: wp_def)

lemma wp_fst_Inr: "wp m (\<lambda>x s'. x = v) (\<lambda>e s'. False) s \<Longrightarrow> fst (m s) = Inr v"
  by (auto simp: wp_def split: prod.splits sum.splits)

lemma wp_fst_Inl: "wp m (\<lambda>x s'. False) (\<lambda>e s'. e = v) s \<Longrightarrow> fst (m s) = Inl v"
  by (auto simp: wp_def split: prod.splits sum.splits)

lemma wp_run_Inr: "wp m (\<lambda>x s'. x = v \<and> s' = t) (\<lambda>e s'. False) s \<Longrightarrow> m s = (Inr v, t)"
  by (auto simp: wp_def split: prod.splits sum.splits)

lemma wp_run_Inl: "wp m (\<lambda>x s'. False) (\<lambda>e s'. e = v \<and> s' = t) s \<Longrightarrow> m s = (Inl v, t)"
  by (auto simp: wp_def split: prod.splits sum.splits)

lemma wp_final: "wp m (\<lambda>x. P) (\<lambda>e. P) s = P (snd (m s))"
  by (auto simp: wp_def split: prod.splits sum.splits)

lemma wp_result: "wp m (\<lambda>x s'. P (Inr x)) (\<lambda>e s'. P (Inl e)) s = P (fst (m s))"
  by (auto simp: wp_def split: prod.splits sum.splits)

text \<open>When errors are not constrained, only what follows a call matters.\<close>

lemma wp_bnd_after:
  assumes "\<And>x s'. wp (f x) Q (\<lambda>e s'. True) s'"
  shows "wp (bnd m f) Q (\<lambda>e s'. True) s"
proof (cases "m s")
  case (Pair r s')
  then show ?thesis
    using assms by (cases r) (simp_all add: wp_def bnd_def)
qed

lemma wp_thn_after:
  "(\<And>s'. wp k Q (\<lambda>e s'. True) s') \<Longrightarrow> wp (thn m k) Q (\<lambda>e s'. True) s"
  unfolding thn_def by (rule wp_bnd_after)

lemma wp_close_B [simp]:
  "wp close_B Q E s =
     (case browser (fst s) of
        None \<Rightarrow> Q () s
      | Some b \<Rightarrow> Q () ((fst s)\<lparr>browser := None, ctx := None, page := None\<rparr>,
                        (step (Close b) (snd s))\<lparr>live := live (snd s) - {b}\<rparr>))"
  by (simp add: close_B_def split: option.splits)

lemma step_simps [simp]:
  "answer (step ev w) = answer w"
  "tick (step ev w) = Suc (tick w)"
  "spawned (step ev w) = spawned w"
  "live (step ev w) = live w"
  "trace (step ev w) = trace w @ [ev]"
  by (simp_all add: step_def)

lemmas sample_defs =
  world0_def shopPage_def blockPage_def timedOut_def rejecting_def noOptions_def tile_def
  blankFields_def
  potLink_def svgLink_def constructor_A_def constructor_B_def

lemma ascii_simps [simp]:
  "ascii [] = []"
  "ascii (c # cs) = of_char c # ascii cs"
  by (simp_all add: ascii_def)

section \<open>Search results: the limit, distinct ids, best-effort extraction\<close>

lemma extractLoop_distinct:
  assumes body: "\<And>c seen out seen'. body c seen = (out, seen') \<Longrightarrow>
            seen \<subseteq> seen' \<and> (\<forall>it. out = Pushed it \<longrightarrow> itemId it \<notin> seen \<and> itemId it \<in> seen')"
  shows "distinct (map itemId items) \<Longrightarrow> set (map itemId items) \<subseteq> seen \<Longrightarrow>
         distinct (map itemId (extractLoop body n cs seen items))"
proof (induction cs arbitrary: seen items)
  case Nil
  then show ?case by simp
next
  case (Cons c cs)
  obtain out seen' where b: "body c seen = (out, seen')"
    by (cases "body c seen")
  from body[OF b] have sub: "seen \<subseteq> seen'"
    and push: "\<And>it. out = Pushed it \<Longrightarrow> itemId it \<notin> seen \<and> itemId it \<in> seen'"
    by auto
  show ?case
  proof (cases "length items \<ge> n")
    case True
    with Cons.prems show ?thesis by simp
  next
    case False
    show ?thesis
    proof (cases out)
      case Skipped
      with False b Cons.prems sub show ?thesis
        by (simp add: Cons.IH subset_trans[OF _ sub])
    next
      case Raised
      with False b Cons.prems sub show ?thesis
        by (simp add: Cons.IH subset_trans[OF _ sub])
    next
      case (Pushed it)
      from push[OF Pushed] have fresh: "itemId it \<notin> seen" and inn: "itemId it \<in> seen'"
        by auto
      have d: "distinct (map itemId (items @ [it]))"
        using Cons.prems fresh by auto
      have s: "set (map itemId (items @ [it])) \<subseteq> seen'"
        using Cons.prems(2) sub inn by auto
      from Cons.IH[OF d s] False b Pushed show ?thesis by simp
    qed
  qed
qed

lemma extractLoop_length:
  "length items \<le> n \<Longrightarrow> length (extractLoop body n cs seen items) \<le> n"
proof (induction cs arbitrary: seen items)
  case Nil
  then show ?case by simp
next
  case (Cons c cs)
  show ?case
  proof (cases "length items \<ge> n")
    case True
    with Cons.prems show ?thesis by simp
  next
    case False
    then have "length (items @ [it]) \<le> n" for it by simp
    with False Cons.IH Cons.prems show ?thesis
      by (auto split: prod.splits outcome.splits)
  qed
qed

lemma cardBody_A_seen:
  "cardBody_A c seen = (out, seen') \<Longrightarrow>
     seen \<subseteq> seen' \<and> (\<forall>it. out = Pushed it \<longrightarrow> itemId it \<notin> seen \<and> itemId it \<in> seen')"
  by (auto simp: cardBody_A_def split: option.splits if_splits)

lemma linkBody_B_seen:
  "linkBody_B l seen = (out, seen') \<Longrightarrow>
     seen \<subseteq> seen' \<and> (\<forall>it. out = Pushed it \<longrightarrow> itemId it \<notin> seen \<and> itemId it \<in> seen')"
  by (auto simp: linkBody_B_def Let_def split: option.splits if_splits)

lemma extractSearch_A_ok:
  "length (extractSearch_A n sel) \<le> n \<and> distinct (map itemId (extractSearch_A n sel))"
  unfolding extractSearch_A_def
  by (simp add: extractLoop_length extractLoop_distinct[OF cardBody_A_seen])

lemma extractSearch_B_ok:
  "length (extractSearch_B n links) \<le> n \<and> distinct (map itemId (extractSearch_B n links))"
  unfolding extractSearch_B_def
  by (simp add: extractLoop_length extractLoop_distinct[OF linkBody_B_seen])

lemma search_A_wp:
  "wp (search_A query opts)
      (\<lambda>items s'. length items \<le> limitOf opts \<and> distinct (map itemId items))
      (\<lambda>e s'. True) s"
  unfolding search_A_def
  apply (intro wp_thn_after wp_bnd_after)
  apply (simp add: extractSearch_A_ok split: option.split)
  done

lemma search_B_wp:
  "wp (search_B query opts)
      (\<lambda>items s'. length items \<le> limitOf opts \<and> distinct (map itemId items))
      (\<lambda>e s'. True) s"
  unfolding search_B_def
  apply (simp split: option.split)
  apply (rule wp_mono[where Q="\<lambda>x s. True" and E="\<lambda>e s. True"])
    apply (simp add: wp_def split: prod.split sum.split)
   apply (auto simp: extractSearch_B_ok split: option.split)
  done

lemma wp_fst_returns: "wp m Q E s \<Longrightarrow> fst (m s) = Inr x \<Longrightarrow> Q x (snd (m s))"
  by (cases "m s") (simp add: wp_def)

lemma search_A_run:
  "fst (search_A (ascii ''pot'') noOptions (constructor_A, world0 (\<lambda>n. shopPage)))
   = Inr (extractSearch_A 20 (selectorMatches shopPage))"
  apply (rule wp_fst_Inr)
  apply (simp add: search_A_def init_A_def visitHomepage_A_def simulateHumanBehavior_A_def
                   hasCaptcha_A_def limitOf_def isBlocked_A_def ogranichen_def startsWith_def
                   sample_defs)
  done

lemma search_B_run:
  "fst (search_B (ascii ''pot'') (noOptions\<lparr>limit := Some 1\<rparr>)
          (constructor_B, world0 (\<lambda>n. shopPage)))
   = Inr (extractSearch_B 1 (productLinks shopPage))"
  apply (rule wp_fst_Inr)
  apply (simp add: search_B_def loadPage_B_def createBrowser_B_def limitOf_def isBlocked_B_def
                   ogranichen_def startsWith_def sample_defs)
  done

lemmas extract_defs =
  extractSearch_A_def extractSearch_B_def cardBody_A_def linkBody_B_def cardLink_def
  containerText_A_def container_B_def orElse_def startsWith_def leadingDigits_def isDigit_def
  textLines_def trim_def isSpace_def rouble_def

lemma extract_A_shopPage:
  "extractSearch_A 20 (selectorMatches shopPage) =
     [\<lparr>itemId = ascii ''12'', itemUrl = ascii ''https://www.ozon.ru/product/pot-12'',
       itemName = ascii ''Unknown'', itemPrice = None\<rparr>,
      \<lparr>itemId = ascii ''7'', itemUrl = ascii ''https://www.ozon.ru/product/cup-7'',
       itemName = ascii ''Unknown'', itemPrice = None\<rparr>]"
  by (simp add: sample_defs extract_defs)

lemma extract_B_shopPage:
  "extractSearch_B 1 (productLinks shopPage) =
     [\<lparr>itemId = ascii ''12'', itemUrl = ascii ''https://www.ozon.ru/product/pot-12'',
       itemName = ascii ''Product 12'', itemPrice = None\<rparr>]"
  by (simp add: sample_defs extract_defs)

text \<open>
  Claim C10. In both clients, whenever \<open>search\<close> returns, the list it returns has at most
  \<open>limit\<close> entries (20 when the option is absent) and the \<open>id\<close> fields of its entries are
  pairwise distinct.
\<close>

theorem search_limit_distinct:
  "(fst (search_A query opts sA) = Inr items
      \<longrightarrow> length items \<le> limitOf opts \<and> distinct (map itemId items))
   \<and> (fst (search_B query opts sB) = Inr items'
      \<longrightarrow> length items' \<le> limitOf opts \<and> distinct (map itemId items'))"
  using wp_fst_returns[OF search_A_wp, of query opts sA items]
        wp_fst_returns[OF search_B_wp, of query opts sB items']
  by blast

theorem search_limit_distinct_witness:
  "fst (search_A (ascii ''pot'') noOptions (constructor_A, world0 (\<lambda>n. shopPage)))
     = Inr (extractSearch_A 20 (selectorMatches shopPage))
   \<and> length (extractSearch_A 20 (selectorMatches shopPage)) \<le> limitOf noOptions
   \<and> distinct (map itemId (extractSearch_A 20 (selectorMatches shopPage)))
   \<and> fst (search_B (ascii ''pot'') (noOptions\<lparr>limit := Some 1\<rparr>)
            (constructor_B, world0 (\<lambda>n. shopPage)))
     = Inr (extractSearch_B 1 (productLinks shopPage))
   \<and> length (extractSearch_B 1 (productLinks shopPage)) \<le> limitOf (noOptions\<lparr>limit := Some 1\<rparr>)
   \<and> distinct (map itemId (extractSearch_B 1 (productLinks shopPage)))"
  using search_limit_distinct[of "ascii ''pot''" noOptions
          "(constructor_A, world0 (\<lambda>n. shopPage))"
          "extractSearch_A 20 (selectorMatches shopPage)"]
        search_limit_distinct[of "ascii ''pot''" "noOptions\<lparr>limit := Some 1\<rparr>" _ _
          "(constructor_B, world0 (\<lambda>n. shopPage))" "extractSearch_B 1 (productLinks shopPage)"]
        search_A_run search_B_run
  by blast


















lemma potLink_pushed_A:
  "fst (cardBody_A (Anchor potLink) {}) =
     Pushed \<lparr>itemId = ascii ''12'', itemUrl = ascii ''https://www.ozon.ru/product/pot-12'',
             itemName = ascii ''Unknown'', itemPrice = None\<rparr>"
  by (simp add: sample_defs extract_defs)

lemma potLink_pushed_B:
  "fst (linkBody_B potLink {}) =
     Pushed \<lparr>itemId = ascii ''12'', itemUrl = ascii ''https://www.ozon.ru/product/pot-12'',
             itemName = ascii ''Product 12'', itemPrice = None\<rparr>"
  by (simp add: sample_defs extract_defs)








section \<open>The fresh-session client: blocks and the release of the browser\<close>

lemma wp_createBrowser_B:
  "held L s \<Longrightarrow> wp createBrowser_B (\<lambda>_. held L) (\<lambda>_. held L) s"
  by (auto simp: createBrowser_B_def held_def split: option.splits)

lemma wp_loadPage_B:
  "held L s \<Longrightarrow> wp (loadPage_B u t) (\<lambda>_. held L) (\<lambda>_. held L) s"
  unfolding loadPage_B_def
  apply simp
  apply (erule wp_mono[OF wp_createBrowser_B])
   apply (auto simp: held_def split: option.splits)
  done

lemma search_B_released:
  "held L s \<Longrightarrow> wp (search_B q opts) (\<lambda>_. released L) (\<lambda>_. released L) s"
  unfolding search_B_def
  apply simp
  apply (erule wp_mono[OF wp_loadPage_B])
  subgoal by (auto split: option.splits prod.splits simp: held_def released_def subset_iff; blast?)
  subgoal by (auto split: option.splits prod.splits simp: held_def released_def subset_iff; blast?)
  done

lemma getProductDetails_B_released:
  "held L s \<Longrightarrow> wp (getProductDetails_B x) (\<lambda>_. released L) (\<lambda>_. released L) s"
  unfolding getProductDetails_B_def
  apply simp
  apply (erule wp_mono[OF wp_loadPage_B])
  subgoal by (auto split: option.splits prod.splits simp: held_def released_def subset_iff; blast?)
  subgoal by (auto split: option.splits prod.splits simp: held_def released_def subset_iff; blast?)
  done

lemma getCategories_B_released:
  "held L s \<Longrightarrow> wp getCategories_B (\<lambda>_. released L) (\<lambda>_. released L) s"
  unfolding getCategories_B_def
  apply simp
  apply (erule wp_mono[OF wp_loadPage_B])
  subgoal by (auto split: option.splits prod.splits simp: held_def released_def subset_iff; blast?)
  subgoal by (auto split: option.splits prod.splits simp: held_def released_def subset_iff; blast?)
  done

lemma held_initially: "held (live w - set_option (browser c)) (c, w)"
  by (auto simp: held_def)

text \<open>
  Claim C5. In the fresh-session client, \<open>search\<close>, \<open>getProductDetails\<close> and
  \<open>getCategories\<close> end, whatever they return or throw, with no browser handle in the client
  and with no process running that was not running before the call; the process the client
  held before the call, if any, is not running either.
\<close>

theorem fresh_session_releases_browser:
  "released (live w - set_option (browser c)) (snd (search_B query opts (c, w)))
   \<and> released (live w - set_option (browser c)) (snd (getProductDetails_B productIdOrUrl (c, w)))
   \<and> released (live w - set_option (browser c)) (snd (getCategories_B (c, w)))"
proof (intro conjI)
  let ?L = "live w - set_option (browser c)"
  show "released ?L (snd (search_B query opts (c, w)))"
    using search_B_released[OF held_initially] by (simp only: wp_final)
  show "released ?L (snd (getProductDetails_B productIdOrUrl (c, w)))"
    using getProductDetails_B_released[OF held_initially] by (simp only: wp_final)
  show "released ?L (snd (getCategories_B (c, w)))"
    using getCategories_B_released[OF held_initially] by (simp only: wp_final)
qed



text \<open>
  Claim C1. In the fresh-session client, for every query and options: when the page loads
  and its title matches a block signature of the client, \<open>search\<close> returns the empty list;
  it does not throw.
\<close>

theorem search_B_blocked_returns_empty:
  assumes "fst (loadPage_B (searchUrl query opts) 15000 s) = Inr (p, t)" and "isBlocked_B t"
  shows "fst (search_B query opts s) = Inr []"
proof (rule wp_fst_Inr)
  obtain s' where run: "loadPage_B (searchUrl query opts) 15000 s = (Inr (p, t), s')"
    using assms(1) by (cases "loadPage_B (searchUrl query opts) 15000 s") simp
  have load: "wp (loadPage_B (searchUrl query opts) 15000) Q E s = Q (p, t) s'" for Q E
    by (simp add: wp_def run)
  show "wp (search_B query opts) (\<lambda>x s'. x = []) (\<lambda>e s'. False) s"
    unfolding search_B_def
    by (simp add: load assms(2) split: option.split)
qed

lemma loadPage_B_blockPage:
  "fst (loadPage_B (searchUrl (ascii ''pot'') noOptions) 15000 (constructor_B, world0 (\<lambda>n. blockPage)))
   = Inr (0, ascii ''Antibot Challenge Page'')"
  apply (rule wp_fst_Inr)
  apply (simp add: loadPage_B_def createBrowser_B_def sample_defs)
  done

lemma blockPage_blocked: "isBlocked_B (ascii ''Antibot Challenge Page'')"
  by (simp add: isBlocked_B_def startsWith_def)

theorem search_B_blocked_returns_empty_witness:
  "fst (loadPage_B (searchUrl (ascii ''pot'') noOptions) 15000 (constructor_B, world0 (\<lambda>n. blockPage)))
     = Inr (0, ascii ''Antibot Challenge Page'')
   \<and> isBlocked_B (ascii ''Antibot Challenge Page'')
   \<and> fst (search_B (ascii ''pot'') noOptions (constructor_B, world0 (\<lambda>n. blockPage))) = Inr []"
  using search_B_blocked_returns_empty[OF loadPage_B_blockPage blockPage_blocked]
        loadPage_B_blockPage blockPage_blocked
  by simp

text \<open>
  A run in which the browser starts and the navigation then times out: the process
  started is closed on the way out.
\<close>

lemma search_B_timeout_run:
  "search_B (ascii ''pot'') noOptions
     (constructor_B, world0 (\<lambda>n. if n = 3 then timedOut else shopPage))
   = (Inl (LibError TimeoutError),
      (constructor_B,
       \<lparr>answer = (\<lambda>n. if n = 3 then timedOut else shopPage), tick = 5, spawned = 1, live = {},
        trace = [Launched 0, NewContext, NewPage,
                 Goto (searchUrl (ascii ''pot'') noOptions), Close 0]\<rparr>))"
proof -
  have "wp (search_B (ascii ''pot'') noOptions)
          (\<lambda>x s'. False)
          (\<lambda>e s'. e = LibError TimeoutError \<and> s' =
             (constructor_B,
              \<lparr>answer = (\<lambda>n. if n = 3 then timedOut else shopPage), tick = 5, spawned = 1,
               live = {},
               trace = [Launched 0, NewContext, NewPage,
                        Goto (searchUrl (ascii ''pot'') noOptions), Close 0]\<rparr>))
          (constructor_B, world0 (\<lambda>n. if n = 3 then timedOut else shopPage))"
    by (simp add: search_B_def loadPage_B_def createBrowser_B_def step_def
                  world0_def constructor_B_def timedOut_def shopPage_def)
  then show ?thesis
    by (auto simp: wp_def split: prod.splits sum.splits)
qed

theorem fresh_session_releases_browser_witness:
  "released (live (world0 (\<lambda>n. if n = 3 then timedOut else shopPage))
             - set_option (browser constructor_B))
     (snd (search_B (ascii ''pot'') noOptions
             (constructor_B, world0 (\<lambda>n. if n = 3 then timedOut else shopPage))))
   \<and> trace (snd (snd (search_B (ascii ''pot'') noOptions
             (constructor_B, world0 (\<lambda>n. if n = 3 then timedOut else shopPage)))))
     = [Launched 0, NewContext, NewPage, Goto (searchUrl (ascii ''pot'') noOptions), Close 0]"
  using fresh_session_releases_browser[of "world0 (\<lambda>n. if n = 3 then timedOut else shopPage)"
          constructor_B "ascii ''pot''" noOptions]
        search_B_timeout_run
  by simp

section \<open>Closing the session\<close>

lemmas A_defs =
  init_A_def visitHomepage_A_def simulateHumanBehavior_A_def hasCaptcha_A_def close_A_def

lemma init_A_run:
  "init_A (constructor_A, world0 (\<lambda>n. if n = 17 then rejecting else shopPage))
   = (Inr (), afterInit (\<lambda>n. if n = 17 then rejecting else shopPage))"
  apply (rule wp_run_Inr)
  apply (simp add: A_defs afterInit_def step_def world0_def constructor_A_def shopPage_def)
  done

lemma close_A_run:
  "close_A (afterInit (\<lambda>n. if n = 17 then rejecting else shopPage))
   = (Inl (LibError OtherError),
      (fst (afterInit (\<lambda>n. if n = 17 then rejecting else shopPage)),
       (step (Close 0) (snd (afterInit (\<lambda>n. if n = 17 then rejecting else shopPage))))
         \<lparr>live := {}\<rparr>))"
  apply (rule wp_run_Inl)
  apply (simp add: A_defs afterInit_def step_def rejecting_def blankFields_def)
  done

text \<open>
  Claim C8, which the long-session client breaks. The claim: in both clients \<open>close()\<close>
  never throws, also when called twice or without a session, and leaves no browser, context
  or page in the client. Here \<open>browser.close\<close> rejects, for a client that \<open>init\<close> has just
  set up: \<open>close()\<close> throws that error and the client keeps its browser handle. The
  fresh-session client catches the same rejection, as the lemmas after this one show.
\<close>

theorem close_A_propagates_close_error:
  "fst (close_A (snd (init_A (constructor_A, world0 (\<lambda>n. if n = 17 then rejecting else shopPage)))))
     = Inl (LibError OtherError)
   \<and> browser (fst (snd (close_A (snd (init_A
        (constructor_A, world0 (\<lambda>n. if n = 17 then rejecting else shopPage))))))) = Some 0"
  by (simp add: init_A_run close_A_run) (simp add: afterInit_def)

lemma close_B_never_throws: "fst (close_B s) = Inr ()"
  by (rule wp_fst_Inr) (simp split: option.split)

lemma close_B_holds_nothing:
  "browser (fst (snd (close_B s))) = None"
  using wp_final[of close_B "\<lambda>s'. browser (fst s') = None" s]
  by (simp split: option.splits)

lemma close_B_twice: "close_B (snd (close_B s)) = (Inr (), snd (close_B s))"
proof -
  have "wp close_B (\<lambda>x s'. x = () \<and> s' = snd (close_B s)) (\<lambda>e s'. False) (snd (close_B s))"
    using close_B_holds_nothing[of s] by simp
  then show ?thesis by (rule wp_run_Inr)
qed

lemma close_A_without_session: "browser (fst s) = None \<Longrightarrow> close_A s = (Inr (), s)"
  by (rule wp_run_Inr) (simp add: close_A_def)

lemma close_A_after_close:
  "fst (close_A s) = Inr () \<Longrightarrow> close_A (snd (close_A s)) = (Inr (), snd (close_A s))"
proof (rule close_A_without_session)
  assume "fst (close_A s) = Inr ()"
  moreover have "wp close_A (\<lambda>x s'. browser (fst s') = None) (\<lambda>e s'. True) s"
    by (simp add: close_A_def split: option.split)
  ultimately show "browser (fst (snd (close_A s))) = None"
    by (cases "close_A s") (simp add: wp_def)
qed

section \<open>How many browsers run\<close>

lemma search_A_failed_init_run:
  "search_A (ascii ''pot'') noOptions
     (constructor_A, world0 (\<lambda>n. if n = 5 then timedOut else shopPage))
   = (Inl (LibError TimeoutError), afterFailedInit (\<lambda>n. if n = 5 then timedOut else shopPage))"
  apply (rule wp_run_Inl)
  apply (simp add: search_A_def A_defs afterFailedInit_def step_def world0_def constructor_A_def
                   timedOut_def shopPage_def)
  done

lemma search_A_second_run:
  "wp (search_A (ascii ''pot'') noOptions)
      (\<lambda>x s'. live (snd s') = {0, 1} \<and> browser (fst s') = Some 1)
      (\<lambda>e s'. False)
      (afterFailedInit (\<lambda>n. if n = 5 then timedOut else shopPage))"
  by (auto simp: search_A_def A_defs afterFailedInit_def constructor_A_def shopPage_def
                isBlocked_A_def ogranichen_def startsWith_def)

text \<open>
  Claim C4, which the long-session client breaks. The claim: after any public operation,
  at most one browser process runs per client. Here the navigation to the home page inside
  \<open>init\<close> times out during a first \<open>search\<close>: the call throws, one browser runs, and
  \<open>isInitialized\<close> is still false. A second \<open>search\<close> then runs \<open>init\<close> again, which
  launches a second browser over the handle of the first: two processes run when it
  returns. The fresh-session client closes the browser it holds before it launches one.
\<close>

theorem second_init_orphans_browser:
  "fst (search_A (ascii ''pot'') noOptions
          (constructor_A, world0 (\<lambda>n. if n = 5 then timedOut else shopPage)))
     = Inl (LibError TimeoutError)
   \<and> live (snd (snd (search_A (ascii ''pot'') noOptions
                       (constructor_A, world0 (\<lambda>n. if n = 5 then timedOut else shopPage)))))
     = {0}
   \<and> live (snd (snd (search_A (ascii ''pot'') noOptions
        (snd (search_A (ascii ''pot'') noOptions
               (constructor_A, world0 (\<lambda>n. if n = 5 then timedOut else shopPage)))))))
     = {0, 1}"
proof -
  let ?s1 = "afterFailedInit (\<lambda>n. if n = 5 then timedOut else shopPage)"
  have "live (snd (snd (search_A (ascii ''pot'') noOptions ?s1))) = {0, 1}"
    using search_A_second_run
    by (cases "search_A (ascii ''pot'') noOptions ?s1") (auto simp: wp_def split: sum.splits)
  then show ?thesis
    unfolding search_A_failed_init_run by (simp add: afterFailedInit_def)
qed


lemma fresh_session_at_most_one:
  assumes "live w \<subseteq> set_option (browser c)"
  shows "live (snd (snd (search_B query opts (c, w)))) = {}"
    and "live (snd (snd (getProductDetails_B productIdOrUrl (c, w)))) = {}"
    and "live (snd (snd (getCategories_B (c, w)))) = {}"
proof -
  have h: "held {} (c, w)"
    using assms by (simp add: held_def)
  show "live (snd (snd (search_B query opts (c, w)))) = {}"
    using search_B_released[OF h] by (simp add: wp_final released_def)
  show "live (snd (snd (getProductDetails_B productIdOrUrl (c, w)))) = {}"
    using getProductDetails_B_released[OF h] by (simp add: wp_final released_def)
  show "live (snd (snd (getCategories_B (c, w)))) = {}"
    using getCategories_B_released[OF h] by (simp add: wp_final released_def)
qed

section \<open>The outcomes of a product fetch\<close>

lemma leadingDigits_None: "(leadingDigits (d # cs) = None) = (\<not> isDigit d)"
  by (simp add: leadingDigits_def)

lemma matchId_hasProductId: "(matchId u \<noteq> None) = hasProductId u"
proof (induction u rule: hasProductId.induct)
  case (1 c d cs)
  have step: "matchId (c # d # cs) =
      (if c = 45
       then (case leadingDigits (d # cs) of Some x \<Rightarrow> Some x | None \<Rightarrow> matchId (d # cs))
       else matchId (d # cs))"
    by simp
  show ?case
  proof (cases "leadingDigits (d # cs)")
    case None
    then have "\<not> isDigit d"
      using leadingDigits_None[of d cs] by simp
    with None 1 show ?thesis
      unfolding step by (simp del: matchId.simps)
  next
    case (Some a)
    then have "isDigit d"
      using leadingDigits_None[of d cs] by simp
    with Some 1 show ?thesis
      unfolding step by (simp del: matchId.simps)
  qed
qed (simp_all add: leadingDigits_def)

lemma simulate_sees:
  "sees P s \<Longrightarrow> (\<And>s'. sees P s' \<Longrightarrow> Q () s') \<Longrightarrow> (\<And>l s'. E (LibError l) s')
   \<Longrightarrow> wp simulateHumanBehavior_A Q E s"
  by (auto simp: simulateHumanBehavior_A_def sees_def split: option.split)

lemma visitHomepage_sees:
  "sees P s \<Longrightarrow> (\<And>s'. sees P s' \<Longrightarrow> Q () s') \<Longrightarrow> (\<And>l s'. E (LibError l) s')
   \<Longrightarrow> wp (visitHomepage_A force) Q E s"
  unfolding visitHomepage_A_def
  by (auto simp: sees_def split: option.split intro!: simulate_sees[where P=P])

lemma init_sees:
  "wf_A (fst s) \<Longrightarrow> P (answer (snd s)) \<Longrightarrow> (\<And>s'. sees P s' \<Longrightarrow> Q () s')
   \<Longrightarrow> (\<And>l s'. E (LibError l) s') \<Longrightarrow> wp init_A Q E s"
  unfolding init_A_def
  by (auto simp: sees_def wf_A_def split: option.split intro!: visitHomepage_sees[where P=P])

lemma hasCaptcha_sees:
  "sees P s \<Longrightarrow> (\<And>n s'. sees P s' \<Longrightarrow> Q (isBlocked_A (pageTitle (answer (snd s) n))) s')
   \<Longrightarrow> (\<And>l s'. E (LibError l) s') \<Longrightarrow> wp hasCaptcha_A Q E s"
  unfolding hasCaptcha_A_def
  by (auto simp: sees_def split: option.split)

lemmas sees_intros = init_sees visitHomepage_sees simulate_sees hasCaptcha_sees

lemma getProductDetails_A_wp:
  assumes "wf_A (fst s)"
  shows "wp (getProductDetails_A x)
      (\<lambda>p s'. title p \<noteq> None \<and> (productId p \<noteq> None) = hasProductId (url p))
      (\<lambda>e s'. e = BlockedError \<or> e = NotFoundError \<or> (\<exists>l. e = LibError l)) s"
  unfolding getProductDetails_A_def
  using assms
  by (auto simp: sees_def matchId_hasProductId[symmetric] simp del: matchId.simps
           split: option.split intro!: sees_intros[where P="\<lambda>a. True"])

lemma loadPage_B_lib:
  "(\<And>x s'. Q x s') \<Longrightarrow> (\<And>l s'. E (LibError l) s') \<Longrightarrow> wp (loadPage_B u t) Q E s"
  unfolding loadPage_B_def createBrowser_B_def
  by (auto split: option.split)

lemma getProductDetails_B_wp:
  "wp (getProductDetails_B x)
      (\<lambda>p s'. (productId p \<noteq> None) = hasProductId (url p))
      (\<lambda>e s'. e = BlockedError \<or> (\<exists>l. e = LibError l)) s"
  unfolding getProductDetails_B_def
  by (auto simp: matchId_hasProductId[symmetric] simp del: matchId.simps
           split: option.split intro!: loadPage_B_lib)

lemma wp_fst_case:
  "wp m (\<lambda>x s'. Q x) (\<lambda>e s'. E e) s = (case fst (m s) of Inl e \<Rightarrow> E e | Inr x \<Rightarrow> Q x)"
  by (auto simp: wp_def split: prod.splits sum.splits)

text \<open>
  Claim C2, as the code has it. \<open>getProductDetails\<close> throws \<open>BlockedError\<close>, or (in the
  long-session client only) \<open>NotFoundError\<close>, or an error the browser library rejected
  with, such as the navigation timeout; or it returns a product whose \<open>id\<close> is non-null
  exactly when its URL matches the product-id pattern, and whose title, in the long-session
  client, is non-null.
\<close>

theorem getProductDetails_outcomes:
  "(case fst (getProductDetails_B x sB) of
      Inl e \<Rightarrow> e = BlockedError \<or> (\<exists>l. e = LibError l)
    | Inr p \<Rightarrow> (productId p \<noteq> None) = hasProductId (url p))
   \<and> (wf_A (fst sA) \<longrightarrow>
        (case fst (getProductDetails_A x sA) of
           Inl e \<Rightarrow> e = BlockedError \<or> e = NotFoundError \<or> (\<exists>l. e = LibError l)
         | Inr p \<Rightarrow> title p \<noteq> None \<and> (productId p \<noteq> None) = hasProductId (url p)))"
  using getProductDetails_B_wp[of x sB] getProductDetails_A_wp[of sA x]
  by (simp only: wp_fst_case) blast

lemma getProductDetails_A_shop_run:
  "fst (getProductDetails_A (ascii ''12'') (constructor_A, world0 (\<lambda>n. shopPage)))
   = Inr \<lparr>title = Some (ascii ''Pot''), details = blankFields,
          productId = Some (ascii ''12''), url = ascii ''/product/pot-12/''\<rparr>"
  apply (rule wp_fst_Inr)
  apply (simp add: getProductDetails_A_def A_defs world0_def constructor_A_def shopPage_def
                   isBlocked_A_def ogranichen_def dostupOgranichen_def startsWith_def
                   scrapeTitle_def trim_def isSpace_def leadingDigits_def isDigit_def)
  done

theorem getProductDetails_outcomes_witness:
  "wf_A (fst (constructor_A, world0 (\<lambda>n. shopPage)))
   \<and> fst (getProductDetails_A (ascii ''12'') (constructor_A, world0 (\<lambda>n. shopPage)))
     = Inr \<lparr>title = Some (ascii ''Pot''), details = blankFields,
            productId = Some (ascii ''12''), url = ascii ''/product/pot-12/''\<rparr>
   \<and> hasProductId (ascii ''/product/pot-12/'')"
  using getProductDetails_outcomes[of "ascii ''12''" _ "(constructor_A, world0 (\<lambda>n. shopPage))"]
        getProductDetails_A_shop_run
  by (simp add: wf_A_def constructor_A_def)

text \<open>
  Claim C2 as stated fails: when the navigation to the home page times out,
  \<open>getProductDetails\<close> throws the timeout, which is neither of the two errors of the claim.
\<close>

theorem getProductDetails_timeout_counterexample:
  "fst (getProductDetails_A (ascii ''12'')
          (constructor_A, world0 (\<lambda>n. if n = 5 then timedOut else shopPage)))
   = Inl (LibError TimeoutError)"
  apply (rule wp_fst_Inl)
  apply (simp add: getProductDetails_A_def A_defs world0_def constructor_A_def shopPage_def
                   timedOut_def)
  done

section \<open>A block that persists\<close>

lemma getProductDetails_A_blocked:
  assumes "wf_A (fst s)" "alwaysBlocked isBlocked_A (answer (snd s))"
  shows "wp (getProductDetails_A x) (\<lambda>p s'. False)
            (\<lambda>e s'. e = BlockedError \<or> (\<exists>l. e = LibError l)) s"
  unfolding getProductDetails_A_def
  using assms
  by (auto simp: sees_def alwaysBlocked_def split: option.split
           intro!: sees_intros[where P="alwaysBlocked isBlocked_A"])

lemma simulate_errors:
  "(\<And>s'. Q () s') \<Longrightarrow> (\<And>s'. E TypeError s') \<Longrightarrow> (\<And>l s'. E (LibError l) s')
   \<Longrightarrow> wp simulateHumanBehavior_A Q E s"
  by (auto simp: simulateHumanBehavior_A_def split: option.split)

lemma visitHomepage_errors:
  "(\<And>s'. Q () s') \<Longrightarrow> (\<And>s'. E TypeError s') \<Longrightarrow> (\<And>l s'. E (LibError l) s')
   \<Longrightarrow> wp (visitHomepage_A force) Q E s"
  unfolding visitHomepage_A_def
  by (auto split: option.split intro!: simulate_errors)

lemma init_errors:
  "(\<And>s'. Q () s') \<Longrightarrow> (\<And>s'. E TypeError s') \<Longrightarrow> (\<And>l s'. E (LibError l) s')
   \<Longrightarrow> wp init_A Q E s"
  unfolding init_A_def
  by (auto split: option.split intro!: visitHomepage_errors)

lemma hasCaptcha_errors:
  "(\<And>b s'. Q b s') \<Longrightarrow> (\<And>s'. E TypeError s') \<Longrightarrow> (\<And>l s'. E (LibError l) s')
   \<Longrightarrow> wp hasCaptcha_A Q E s"
  unfolding hasCaptcha_A_def
  by (auto split: option.split)

lemmas errors_intros = init_errors visitHomepage_errors simulate_errors hasCaptcha_errors

lemma search_A_never_blocked:
  "wp (search_A query opts) (\<lambda>items s'. True)
      (\<lambda>e s'. e = TypeError \<or> (\<exists>l. e = LibError l)) s"
  unfolding search_A_def
  by (auto split: option.split intro!: errors_intros)

lemma loadPage_B_answers:
  "P (answer (snd s))
   \<Longrightarrow> (\<And>p n s'. P (answer (snd s')) \<Longrightarrow> Q (p, pageTitle (answer (snd s) n)) s')
   \<Longrightarrow> (\<And>l s'. E (LibError l) s') \<Longrightarrow> wp (loadPage_B u t) Q E s"
  unfolding loadPage_B_def createBrowser_B_def
  by (auto split: option.split)

lemma search_B_blocked:
  assumes "alwaysBlocked isBlocked_B (answer (snd s))"
  shows "wp (search_B query opts) (\<lambda>items s'. items = []) (\<lambda>e s'. \<exists>l. e = LibError l) s"
  unfolding search_B_def
  using assms
  by (auto simp: alwaysBlocked_def split: option.split
           intro!: loadPage_B_answers[where P="alwaysBlocked isBlocked_B"])

lemma getProductDetails_B_blocked:
  assumes "alwaysBlocked isBlocked_B (answer (snd s))"
  shows "wp (getProductDetails_B x) (\<lambda>p s'. False)
            (\<lambda>e s'. e = BlockedError \<or> (\<exists>l. e = LibError l)) s"
  unfolding getProductDetails_B_def
  using assms
  by (auto simp: alwaysBlocked_def split: option.split
           intro!: loadPage_B_answers[where P="alwaysBlocked isBlocked_B"])

lemma wp_fst_never:
  "wp m (\<lambda>x s'. True) (\<lambda>e s'. E e) s \<Longrightarrow> \<not> E v \<Longrightarrow> fst (m s) \<noteq> Inl v"
  by (auto simp: wp_def split: prod.splits sum.splits)

text \<open>
  Claim C7, as the code has it. When the site keeps answering with a block page: the
  product fetch of the long-session client throws \<open>BlockedError\<close> after its one retry
  (unless the browser library fails first); its \<open>search\<close> does not check the title again
  after the retry and never throws \<open>BlockedError\<close>; the fresh-session client, which has
  no retry, returns the empty list from \<open>search\<close> and throws \<open>BlockedError\<close> from the
  product fetch.
\<close>

theorem persistent_block_outcomes:
  "(wf_A (fst sA) \<longrightarrow> alwaysBlocked isBlocked_A (answer (snd sA)) \<longrightarrow>
      (case fst (getProductDetails_A x sA) of
         Inl e \<Rightarrow> e = BlockedError \<or> (\<exists>l. e = LibError l)
       | Inr p \<Rightarrow> False))
   \<and> fst (search_A query opts sA) \<noteq> Inl BlockedError
   \<and> (alwaysBlocked isBlocked_B (answer (snd sB)) \<longrightarrow>
        (case fst (search_B query opts sB) of
           Inl e \<Rightarrow> (\<exists>l. e = LibError l)
         | Inr items \<Rightarrow> items = [])
        \<and> (case fst (getProductDetails_B x sB) of
             Inl e \<Rightarrow> e = BlockedError \<or> (\<exists>l. e = LibError l)
           | Inr p \<Rightarrow> False))"
proof (intro conjI impI)
  assume "wf_A (fst sA)" "alwaysBlocked isBlocked_A (answer (snd sA))"
  then show "case fst (getProductDetails_A x sA) of
               Inl e \<Rightarrow> e = BlockedError \<or> (\<exists>l. e = LibError l)
             | Inr p \<Rightarrow> False"
    using getProductDetails_A_blocked[of sA x] by (simp only: wp_fst_case)
next
  show "fst (search_A query opts sA) \<noteq> Inl BlockedError"
    by (rule wp_fst_never[OF search_A_never_blocked]) simp
next
  assume "alwaysBlocked isBlocked_B (answer (snd sB))"
  then show "case fst (search_B query opts sB) of
               Inl e \<Rightarrow> (\<exists>l. e = LibError l)
             | Inr items \<Rightarrow> items = []"
    using search_B_blocked[of sB query opts] by (simp only: wp_fst_case)
next
  assume "alwaysBlocked isBlocked_B (answer (snd sB))"
  then show "case fst (getProductDetails_B x sB) of
               Inl e \<Rightarrow> e = BlockedError \<or> (\<exists>l. e = LibError l)
             | Inr p \<Rightarrow> False"
    using getProductDetails_B_blocked[of sB x] by (simp only: wp_fst_case)
qed

lemmas block_run_defs =
  world0_def constructor_A_def constructor_B_def blockPage_def shopPage_def
  isBlocked_A_def isBlocked_B_def ogranichen_def startsWith_def

lemma getProductDetails_A_block_run:
  "fst (getProductDetails_A (ascii ''12'') (constructor_A, world0 (\<lambda>n. blockPage)))
   = Inl BlockedError"
  apply (rule wp_fst_Inl)
  apply (simp add: getProductDetails_A_def A_defs block_run_defs)
  done

lemma getProductDetails_B_block_run:
  "fst (getProductDetails_B (ascii ''12'') (constructor_B, world0 (\<lambda>n. blockPage)))
   = Inl BlockedError"
  apply (rule wp_fst_Inl)
  apply (simp add: getProductDetails_B_def loadPage_B_def createBrowser_B_def block_run_defs)
  done

lemma search_B_block_run:
  "fst (search_B (ascii ''pot'') noOptions (constructor_B, world0 (\<lambda>n. blockPage))) = Inr []"
  apply (rule wp_fst_Inr)
  apply (simp add: search_B_def loadPage_B_def createBrowser_B_def block_run_defs)
  done

lemma blockPage_always:
  "alwaysBlocked isBlocked_A (\<lambda>n. blockPage)" "alwaysBlocked isBlocked_B (\<lambda>n. blockPage)"
  by (simp_all add: alwaysBlocked_def blockPage_def isBlocked_A_def isBlocked_B_def
                    startsWith_def)

theorem persistent_block_outcomes_witness:
  "wf_A (fst (constructor_A, world0 (\<lambda>n. blockPage)))
   \<and> alwaysBlocked isBlocked_A (answer (snd (constructor_A, world0 (\<lambda>n. blockPage))))
   \<and> alwaysBlocked isBlocked_B (answer (snd (constructor_B, world0 (\<lambda>n. blockPage))))
   \<and> fst (getProductDetails_A (ascii ''12'') (constructor_A, world0 (\<lambda>n. blockPage)))
       = Inl BlockedError
   \<and> fst (search_A (ascii ''pot'') noOptions (constructor_A, world0 (\<lambda>n. blockPage)))
       \<noteq> Inl BlockedError
   \<and> fst (search_B (ascii ''pot'') noOptions (constructor_B, world0 (\<lambda>n. blockPage))) = Inr []
   \<and> fst (getProductDetails_B (ascii ''12'') (constructor_B, world0 (\<lambda>n. blockPage)))
       = Inl BlockedError"
  using persistent_block_outcomes[of "(constructor_A, world0 (\<lambda>n. blockPage))" "ascii ''12''"
          "ascii ''pot''" noOptions "(constructor_B, world0 (\<lambda>n. blockPage))"]
        getProductDetails_A_block_run getProductDetails_B_block_run search_B_block_run
        blockPage_always
  by (simp add: wf_A_def constructor_A_def world0_def)

text \<open>
  Claim C7 as stated fails for \<open>search\<close> in the long-session client: with a block page
  before and after the retry, it returns a list (here the empty one) and raises nothing.
\<close>

theorem search_A_persistent_block_counterexample:
  "fst (search_A (ascii ''pot'') noOptions (constructor_A, world0 (\<lambda>n. blockPage))) = Inr []"
  apply (rule wp_fst_Inr)
  apply (simp add: search_A_def A_defs block_run_defs limitOf_def noOptions_def
                   extractSearch_A_def)
  done

section \<open>Batches of product fetches\<close>





























section \<open>The freshness window\<close>

lemma warmups_simps [simp]:
  "warmups [] = 0"
  "warmups (ev # tr) = (if ev = Goto homepage then Suc (warmups tr) else warmups tr)"
  "warmups (tr @ tr') = warmups tr + warmups tr'"
  by (simp_all add: warmups_def)

lemma searchUrl_not_homepage [simp]: "searchUrl query opts \<noteq> homepage"
  by (simp add: searchUrl_def homepage_def)

lemma simulate_same:
  assumes "page (fst s) \<noteq> None"
    and post: "\<And>s'. same s s' \<Longrightarrow> Q () s'"
    and err: "\<And>e s'. E e s'"
  shows "wp simulateHumanBehavior_A Q E s"
  using assms(1)
  by (auto simp: simulateHumanBehavior_A_def err same_def split: option.split intro!: post)

lemma same_trans: "same s s' \<Longrightarrow> same s' s'' \<Longrightarrow> same s s''"
  by (simp add: same_def)

lemma visitHomepage_spec:
  assumes "page (fst s) \<noteq> None"
    and post: "\<And>s'. (if \<not> force \<and> fresh (fst s) (now (answer (snd s) (tick (snd s))))
               then same s s'
               else warmed (now (answer (snd s) (tick (snd s)))) s s') \<Longrightarrow> Q () s'"
    and err: "\<And>e s'. E e s'"
  shows "wp (visitHomepage_A force) Q E s"
proof (cases "\<not> force \<and> fresh (fst s) (now (answer (snd s) (tick (snd s))))")
  case True
  then show ?thesis
    unfolding visitHomepage_A_def
    by (auto simp: fresh_def same_def intro!: post)
next
  case False
  have sim: "wp simulateHumanBehavior_A Q' E s1"
    if "page (fst s1) \<noteq> None" "\<And>s'. same s1 s' \<Longrightarrow> Q' () s'" for Q' s1
    using that err by (rule simulate_same)
  from False assms(1) show ?thesis
    unfolding visitHomepage_A_def
    apply (simp add: fresh_def err split: option.split)
    apply (intro conjI impI allI sim)
        apply (simp_all add: err split: option.split)
     apply (intro conjI impI allI post; simp add: fresh_def same_def warmed_def)+
    done
qed

lemma hasCaptcha_same:
  assumes "page (fst s) \<noteq> None"
    and post: "\<And>n s'. same s s' \<Longrightarrow> Q (isBlocked_A (pageTitle (answer (snd s) n))) s'"
    and err: "\<And>e s'. E e s'"
  shows "wp hasCaptcha_A Q E s"
  using assms(1)
  unfolding hasCaptcha_A_def
  by (auto simp: err same_def split: option.split intro!: post)


lemmas warm_intros = visitHomepage_spec simulate_same hasCaptcha_same

lemma search_A_within_window:
  assumes "isInitialized (fst s)" "page (fst s) \<noteq> None"
    and "fresh (fst s) (now (answer (snd s) (tick (snd s))))"
    and "neverBlocked (answer (snd s))"
  shows "wp (search_A query opts)
            (\<lambda>r s'. fst s' = fst s \<and> answer (snd s') = answer (snd s)
                     \<and> warmups (trace (snd s')) = warmups (trace (snd s)))
            (\<lambda>e s'. True) s"
  unfolding search_A_def
  using assms
  by (auto simp: init_A_def same_def warmed_def neverBlocked_def
           split: option.split if_splits intro!: warm_intros)

lemma search_A_beyond_window:
  assumes "isInitialized (fst s)" "page (fst s) \<noteq> None"
    and "\<not> fresh (fst s) (now (answer (snd s) (tick (snd s))))"
    and "neverBlocked (answer (snd s))"
  shows "wp (search_A query opts)
            (\<lambda>r s'. fst s' = (fst s)\<lparr>lastHomepageVisit := now (answer (snd s) (tick (snd s)))\<rparr>
                     \<and> answer (snd s') = answer (snd s)
                     \<and> warmups (trace (snd s')) = Suc (warmups (trace (snd s))))
            (\<lambda>e s'. True) s"
  unfolding search_A_def
  using assms
  by (auto simp: init_A_def same_def warmed_def neverBlocked_def
           split: option.split if_splits intro!: warm_intros)

lemma search_A_forced:
  assumes "isInitialized (fst s)" "page (fst s) \<noteq> None"
    and "fresh (fst s) (now (answer (snd s) (tick (snd s))))"
    and "alwaysBlocked isBlocked_A (answer (snd s))"
  shows "wp (search_A query opts)
            (\<lambda>r s'. answer (snd s') = answer (snd s)
                     \<and> warmups (trace (snd s')) = Suc (warmups (trace (snd s))))
            (\<lambda>e s'. True) s"
  unfolding search_A_def
  using assms
  by (auto simp: init_A_def same_def warmed_def alwaysBlocked_def
           split: option.split if_splits intro!: warm_intros)

lemma init_first:
  assumes "\<not> isInitialized (fst s)" "lastHomepageVisit (fst s) = 0"
    and post: "\<And>n s'. isInitialized (fst s') \<Longrightarrow> page (fst s') \<noteq> None
                 \<Longrightarrow> lastHomepageVisit (fst s') = now (answer (snd s) n)
                 \<Longrightarrow> homepageVisitInterval (fst s') = homepageVisitInterval (fst s)
                 \<Longrightarrow> answer (snd s') = answer (snd s)
                 \<Longrightarrow> warmups (trace (snd s')) = Suc (warmups (trace (snd s)))
                 \<Longrightarrow> Q () s'"
    and err: "\<And>e s'. E e s'"
  shows "wp init_A Q E s"
  unfolding init_A_def
  using assms(1,2)
  by (auto simp: err fresh_def same_def warmed_def
           split: option.split if_splits intro!: visitHomepage_spec post)

lemma search_A_first:
  assumes "\<not> isInitialized (fst s)" "lastHomepageVisit (fst s) = 0"
    and "\<forall>m n. 0 < now (answer (snd s) n)
               \<and> now (answer (snd s) m) - now (answer (snd s) n) < homepageVisitInterval (fst s)"
    and "neverBlocked (answer (snd s))"
  shows "wp (search_A query opts)
            (\<lambda>r s'. isInitialized (fst s') \<and> page (fst s') \<noteq> None
                     \<and> (\<exists>n. lastHomepageVisit (fst s') = now (answer (snd s) n))
                     \<and> homepageVisitInterval (fst s') = homepageVisitInterval (fst s)
                     \<and> answer (snd s') = answer (snd s)
                     \<and> warmups (trace (snd s')) = Suc (warmups (trace (snd s))))
            (\<lambda>e s'. True) s"
  unfolding search_A_def
  using assms
  apply (auto simp: same_def warmed_def fresh_def neverBlocked_def
           split: option.split if_splits intro!: init_first warm_intros)
  apply blast+
  done

lemma wp_snd_returns: "wp m Q E s \<Longrightarrow> fst (m s) = Inr x \<Longrightarrow> Q x (snd (m s))"
  by (cases "m s") (simp add: wp_def)

lemma two_searches_one_warmup:
  assumes r1: "fst (search_A q1 o1 (constructor_A, w)) = Inr r1"
    and r2: "fst (search_A q2 o2 (snd (search_A q1 o1 (constructor_A, w)))) = Inr r2"
    and nb: "neverBlocked (answer w)"
    and clock: "\<forall>m n. 0 < now (answer w n) \<and> now (answer w m) - now (answer w n) < 300000"
  shows "warmups (trace (snd (snd (search_A q2 o2 (snd (search_A q1 o1 (constructor_A, w)))))))
         = Suc (warmups (trace w))"
proof -
  let ?s0 = "(constructor_A, w)"
  let ?s1 = "snd (search_A q1 o1 ?s0)"
  have "wp (search_A q1 o1)
          (\<lambda>r s'. isInitialized (fst s') \<and> page (fst s') \<noteq> None
                   \<and> (\<exists>n. lastHomepageVisit (fst s') = now (answer (snd ?s0) n))
                   \<and> homepageVisitInterval (fst s') = homepageVisitInterval (fst ?s0)
                   \<and> answer (snd s') = answer (snd ?s0)
                   \<and> warmups (trace (snd s')) = Suc (warmups (trace (snd ?s0))))
          (\<lambda>e s'. True) ?s0"
    using nb clock by (intro search_A_first) (simp_all add: constructor_A_def)
  from wp_snd_returns[OF this r1] obtain n where
    i: "isInitialized (fst ?s1)" and p: "page (fst ?s1) \<noteq> None"
    and l: "lastHomepageVisit (fst ?s1) = now (answer w n)"
    and h: "homepageVisitInterval (fst ?s1) = 300000"
    and a: "answer (snd ?s1) = answer w"
    and k: "warmups (trace (snd ?s1)) = Suc (warmups (trace w))"
    by (auto simp: constructor_A_def)
  have f: "fresh (fst ?s1) (now (answer (snd ?s1) (tick (snd ?s1))))"
    using clock by (simp add: fresh_def l h a)
  have "wp (search_A q2 o2)
          (\<lambda>r s'. fst s' = fst ?s1 \<and> answer (snd s') = answer (snd ?s1)
                   \<and> warmups (trace (snd s')) = warmups (trace (snd ?s1)))
          (\<lambda>e s'. True) ?s1"
    using i p f nb by (intro search_A_within_window) (simp_all add: a)
  from wp_snd_returns[OF this r2] k show ?thesis by simp
qed

text \<open>
  Claim C6. In the long-session client: two \<open>search\<close> calls on a new client, with every
  clock reading inside one freshness window and no block page, make one warm-up in all. On
  an initialised client, a \<open>search\<close> that returns makes no warm-up when the last one is
  within the window; it makes exactly one, and records its time, when the window has
  passed; and when a block is detected it makes one although the last warm-up is within the
  window.
\<close>

theorem freshness_window:
  "(fst (search_A q1 o1 (constructor_A, w)) = Inr r1 \<longrightarrow>
    fst (search_A q2 o2 (snd (search_A q1 o1 (constructor_A, w)))) = Inr r2 \<longrightarrow>
    neverBlocked (answer w) \<longrightarrow>
    (\<forall>m n. 0 < now (answer w n) \<and> now (answer w m) - now (answer w n) < 300000) \<longrightarrow>
    warmups (trace (snd (snd (search_A q2 o2 (snd (search_A q1 o1 (constructor_A, w)))))))
      = Suc (warmups (trace w)))
   \<and> (isInitialized c \<longrightarrow> page c \<noteq> None \<longrightarrow> fst (search_A q opts (c, v)) = Inr r \<longrightarrow>
        (neverBlocked (answer v) \<longrightarrow> fresh c (now (answer v (tick v))) \<longrightarrow>
           warmups (trace (snd (snd (search_A q opts (c, v))))) = warmups (trace v)
           \<and> fst (snd (search_A q opts (c, v))) = c)
      \<and> (neverBlocked (answer v) \<longrightarrow> \<not> fresh c (now (answer v (tick v))) \<longrightarrow>
           warmups (trace (snd (snd (search_A q opts (c, v))))) = Suc (warmups (trace v))
           \<and> lastHomepageVisit (fst (snd (search_A q opts (c, v)))) = now (answer v (tick v)))
      \<and> (alwaysBlocked isBlocked_A (answer v) \<longrightarrow> fresh c (now (answer v (tick v))) \<longrightarrow>
           warmups (trace (snd (snd (search_A q opts (c, v))))) = Suc (warmups (trace v))))"
proof (intro conjI impI)
  assume "fst (search_A q1 o1 (constructor_A, w)) = Inr r1"
    "fst (search_A q2 o2 (snd (search_A q1 o1 (constructor_A, w)))) = Inr r2"
    "neverBlocked (answer w)"
    "\<forall>m n. 0 < now (answer w n) \<and> now (answer w m) - now (answer w n) < 300000"
  then show "warmups (trace (snd (snd (search_A q2 o2 (snd (search_A q1 o1 (constructor_A, w)))))))
      = Suc (warmups (trace w))"
    by (rule two_searches_one_warmup)
next
  assume i: "isInitialized c" "page c \<noteq> None" and r: "fst (search_A q opts (c, v)) = Inr r"
    and nb: "neverBlocked (answer v)" and f: "fresh c (now (answer v (tick v)))"
  have "wp (search_A q opts)
          (\<lambda>r s'. fst s' = fst (c, v) \<and> answer (snd s') = answer (snd (c, v))
                   \<and> warmups (trace (snd s')) = warmups (trace (snd (c, v))))
          (\<lambda>e s'. True) (c, v)"
    using i nb f by (intro search_A_within_window) simp_all
  from wp_snd_returns[OF this r]
  show "warmups (trace (snd (snd (search_A q opts (c, v))))) = warmups (trace v)"
    and "fst (snd (search_A q opts (c, v))) = c"
    by simp_all
next
  assume i: "isInitialized c" "page c \<noteq> None" and r: "fst (search_A q opts (c, v)) = Inr r"
    and nb: "neverBlocked (answer v)" and f: "\<not> fresh c (now (answer v (tick v)))"
  have "wp (search_A q opts)
          (\<lambda>r s'. fst s' = (fst (c, v))\<lparr>lastHomepageVisit :=
                               now (answer (snd (c, v)) (tick (snd (c, v))))\<rparr>
                   \<and> answer (snd s') = answer (snd (c, v))
                   \<and> warmups (trace (snd s')) = Suc (warmups (trace (snd (c, v)))))
          (\<lambda>e s'. True) (c, v)"
    using i nb f by (intro search_A_beyond_window) simp_all
  from wp_snd_returns[OF this r]
  show "warmups (trace (snd (snd (search_A q opts (c, v))))) = Suc (warmups (trace v))"
    and "lastHomepageVisit (fst (snd (search_A q opts (c, v)))) = now (answer v (tick v))"
    by simp_all
next
  assume i: "isInitialized c" "page c \<noteq> None" and r: "fst (search_A q opts (c, v)) = Inr r"
    and ab: "alwaysBlocked isBlocked_A (answer v)" and f: "fresh c (now (answer v (tick v)))"
  have "wp (search_A q opts)
          (\<lambda>r s'. answer (snd s') = answer (snd (c, v))
                   \<and> warmups (trace (snd s')) = Suc (warmups (trace (snd (c, v)))))
          (\<lambda>e s'. True) (c, v)"
    using i ab f by (intro search_A_forced) simp_all
  from wp_snd_returns[OF this r]
  show "warmups (trace (snd (snd (search_A q opts (c, v))))) = Suc (warmups (trace v))"
    by simp
qed

lemma wp_fst_snd: "wp m (\<lambda>x s'. x = v \<and> P s') (\<lambda>e s'. False) s \<Longrightarrow> fst (m s) = Inr v \<and> P (snd (m s))"
  by (auto simp: wp_def split: prod.splits sum.splits)

lemma two_searches_run:
  "fst (search_A (ascii ''pot'') noOptions (constructor_A, world0 (\<lambda>n. shopPage)))
     = Inr (extractSearch_A 20 (selectorMatches shopPage))
   \<and> fst (search_A (ascii ''pot'') noOptions
            (snd (search_A (ascii ''pot'') noOptions (constructor_A, world0 (\<lambda>n. shopPage)))))
     = Inr (extractSearch_A 20 (selectorMatches shopPage))"
proof -
  have "wp (search_A (ascii ''pot'') noOptions)
          (\<lambda>x s'. x = extractSearch_A 20 (selectorMatches shopPage)
                   \<and> wp (search_A (ascii ''pot'') noOptions)
                        (\<lambda>x s''. x = extractSearch_A 20 (selectorMatches shopPage))
                        (\<lambda>e s''. False) s')
          (\<lambda>e s'. False)
          (constructor_A, world0 (\<lambda>n. shopPage))"
    by (simp add: search_A_def A_defs limitOf_def isBlocked_A_def ogranichen_def startsWith_def
                  sample_defs)
  from wp_fst_snd[OF this] show ?thesis
    by (auto dest: wp_fst_Inr)
qed

lemma late_search_run:
  "fst (search_A (ascii ''pot'') noOptions (afterInit (\<lambda>n. latePage)))
     = Inr (extractSearch_A 20 (selectorMatches shopPage))"
  apply (rule wp_fst_Inr)
  apply (simp add: search_A_def A_defs limitOf_def isBlocked_A_def ogranichen_def startsWith_def
                   afterInit_def latePage_def sample_defs)
  done

lemma blocked_search_run:
  "fst (search_A (ascii ''pot'') noOptions (afterInit (\<lambda>n. blockPage))) = Inr []"
  apply (rule wp_fst_Inr)
  apply (simp add: search_A_def A_defs limitOf_def isBlocked_A_def ogranichen_def startsWith_def
                   afterInit_def extractSearch_A_def sample_defs)
  done

lemma shopPage_never_blocked: "neverBlocked (\<lambda>n. shopPage)" "neverBlocked (\<lambda>n. latePage)"
  by (simp_all add: neverBlocked_def latePage_def shopPage_def isBlocked_A_def ogranichen_def
                    startsWith_def)

theorem freshness_window_witness:
  "fst (search_A (ascii ''pot'') noOptions (constructor_A, world0 (\<lambda>n. shopPage)))
     = Inr (extractSearch_A 20 (selectorMatches shopPage))
   \<and> fst (search_A (ascii ''pot'') noOptions
            (snd (search_A (ascii ''pot'') noOptions (constructor_A, world0 (\<lambda>n. shopPage)))))
     = Inr (extractSearch_A 20 (selectorMatches shopPage))
   \<and> neverBlocked (answer (world0 (\<lambda>n. shopPage)))
   \<and> warmups (trace (snd (snd (search_A (ascii ''pot'') noOptions
        (snd (search_A (ascii ''pot'') noOptions (constructor_A, world0 (\<lambda>n. shopPage))))))))
     = 1
   \<and> \<not> fresh (fst (afterInit (\<lambda>n. latePage))) 400000
   \<and> fst (search_A (ascii ''pot'') noOptions (afterInit (\<lambda>n. latePage)))
     = Inr (extractSearch_A 20 (selectorMatches shopPage))
   \<and> warmups (trace (snd (snd (search_A (ascii ''pot'') noOptions (afterInit (\<lambda>n. latePage))))))
     = 2
   \<and> fresh (fst (afterInit (\<lambda>n. blockPage))) 1000
   \<and> alwaysBlocked isBlocked_A (\<lambda>n. blockPage)
   \<and> fst (search_A (ascii ''pot'') noOptions (afterInit (\<lambda>n. blockPage))) = Inr []
   \<and> warmups (trace (snd (snd (search_A (ascii ''pot'') noOptions (afterInit (\<lambda>n. blockPage))))))
     = 2"
proof -
  have clock: "\<forall>m n. 0 < now (answer (world0 (\<lambda>n. shopPage)) n)
        \<and> now (answer (world0 (\<lambda>n. shopPage)) m) - now (answer (world0 (\<lambda>n. shopPage)) n) < 300000"
    by (simp add: world0_def shopPage_def)
  have nb: "neverBlocked (answer (world0 (\<lambda>n. shopPage)))"
    "neverBlocked (answer (snd (afterInit (\<lambda>n. latePage))))"
    by (simp_all add: world0_def afterInit_def shopPage_never_blocked)
  have ab: "alwaysBlocked isBlocked_A (answer (snd (afterInit (\<lambda>n. blockPage))))"
    by (simp add: afterInit_def blockPage_always)
  have late: "\<not> fresh (fst (afterInit (\<lambda>n. latePage)))
                  (now (answer (snd (afterInit (\<lambda>n. latePage))) (tick (snd (afterInit (\<lambda>n. latePage))))))"
    "\<not> fresh (fst (afterInit (\<lambda>n. latePage))) 400000"
    by (simp_all add: fresh_def afterInit_def latePage_def constructor_A_def)
  have early: "fresh (fst (afterInit (\<lambda>n. blockPage)))
                  (now (answer (snd (afterInit (\<lambda>n. blockPage))) (tick (snd (afterInit (\<lambda>n. blockPage))))))"
    "fresh (fst (afterInit (\<lambda>n. blockPage))) 1000"
    by (simp_all add: fresh_def afterInit_def blockPage_def shopPage_def constructor_A_def)
  have init: "isInitialized (fst (afterInit a))" "page (fst (afterInit a)) \<noteq> None" for a
    by (simp_all add: afterInit_def)
  have w0: "warmups (trace (world0 a)) = 0" "warmups (trace (snd (afterInit a))) = 1" for a
    by (simp_all add: world0_def afterInit_def)
  note t1 = freshness_window[of "ascii ''pot''" noOptions "world0 (\<lambda>n. shopPage)"
      "extractSearch_A 20 (selectorMatches shopPage)" "ascii ''pot''" noOptions
      "extractSearch_A 20 (selectorMatches shopPage)", THEN conjunct1]
  note t2 = freshness_window[of _ _ _ _ _ _ _ "fst (afterInit (\<lambda>n. latePage))"
      "ascii ''pot''" noOptions "snd (afterInit (\<lambda>n. latePage))"
      "extractSearch_A 20 (selectorMatches shopPage)", THEN conjunct2]
  note t3 = freshness_window[of _ _ _ _ _ _ _ "fst (afterInit (\<lambda>n. blockPage))"
      "ascii ''pot''" noOptions "snd (afterInit (\<lambda>n. blockPage))" "[]", THEN conjunct2]
  from t1 two_searches_run nb(1) clock
  have a: "warmups (trace (snd (snd (search_A (ascii ''pot'') noOptions
        (snd (search_A (ascii ''pot'') noOptions (constructor_A, world0 (\<lambda>n. shopPage))))))))
     = 1"
    by (simp add: w0)
  from t2 init late_search_run nb(2) late(1)
  have b: "warmups (trace (snd (snd (search_A (ascii ''pot'') noOptions (afterInit (\<lambda>n. latePage))))))
     = 2"
    by (simp add: w0)
  from t3 init blocked_search_run ab early(1)
  have c: "warmups (trace (snd (snd (search_A (ascii ''pot'') noOptions (afterInit (\<lambda>n. blockPage))))))
     = 2"
    by (simp add: w0)
  from a b c two_searches_run nb(1) late(2) late_search_run early(2) blockPage_always(1)
    blocked_search_run
  show ?thesis by blast
qed

section \<open>The states the long-session client reaches\<close>

text \<open>
  The fetch and the search of the long-session client are stated for a client that has a
  page once it is marked as initialised (\<open>wf_A\<close>). A new client is in such a state, and every
  operation leaves it in one, whether it returns or throws: the mark is set at the end of
  \<open>init\<close>, after the page was made, and \<open>close\<close> clears both.
\<close>

lemma leads_ret: "leads I (ret x) I"
  by (simp add: leads_def ret_def)

lemma leads_throw: "leads I (throw e) I"
  by (simp add: leads_def throw_def)

lemma leads_getClient: "leads I getClient I"
  by (simp add: leads_def getClient_def)

lemma leads_browserCall: "leads I (browserCall ev rd) I"
  by (simp add: leads_def browserCall_def Let_def split: option.split)

lemma leads_browserRead: "leads I (browserRead ev rd) I"
  by (simp add: leads_def browserRead_def)

lemma leads_launch: "leads I launch I"
  by (simp add: leads_def launch_def Let_def split: option.split)

lemma leads_browserClose: "leads I (browserClose b) I"
  by (simp add: leads_def browserClose_def Let_def split: option.split)

lemma leads_modifyClient: "(\<And>c. P c \<Longrightarrow> Q (f c)) \<Longrightarrow> leads P (modifyClient f) Q"
  by (simp add: leads_def modifyClient_def)

lemma leads_seq:
  assumes "leads P m R" and "\<And>x. leads R (f x) Q" and "\<And>c. R c \<Longrightarrow> Q c"
  shows "leads P (bnd m f) Q"
  using assms unfolding leads_def bnd_def
  by (auto split: prod.split sum.split) (metis fst_conv snd_conv)+

lemma leads_bnd: "leads I m I \<Longrightarrow> (\<And>x. leads I (f x) I) \<Longrightarrow> leads I (bnd m f) I"
  by (rule leads_seq)

lemma leads_thn: "leads I m I \<Longrightarrow> leads I k I \<Longrightarrow> leads I (thn m k) I"
  unfolding thn_def by (rule leads_bnd)

lemma leads_then:
  "leads P m R \<Longrightarrow> leads R k Q \<Longrightarrow> (\<And>c. R c \<Longrightarrow> Q c) \<Longrightarrow> leads P (thn m k) Q"
  unfolding thn_def by (rule leads_seq)

lemma leads_tryCatch: "leads I m I \<Longrightarrow> (\<And>e. leads I (h e) I) \<Longrightarrow> leads I (tryCatch m h) I"
  unfolding leads_def tryCatch_def
  by (auto split: prod.split sum.split) (metis fst_conv snd_conv)+

lemma leads_if: "leads P m Q \<Longrightarrow> leads P k Q \<Longrightarrow> leads P (if b then m else k) Q"
  by simp

lemma leads_option:
  "leads P m Q \<Longrightarrow> (\<And>x. leads P (f x) Q) \<Longrightarrow> leads P (case v of None \<Rightarrow> m | Some x \<Rightarrow> f x) Q"
  by (simp split: option.split)

lemma leads_prod: "(\<And>a b. leads P (f a b) Q) \<Longrightarrow> leads P (case v of (a, b) \<Rightarrow> f a b) Q"
  by (simp split: prod.split)

lemma leads_pageCall: "leads I (pageCall ev rd) I"
  unfolding pageCall_def
  by (intro leads_bnd leads_getClient leads_option leads_throw leads_browserCall)

lemma leads_pageRead: "leads I (pageRead ev rd) I"
  unfolding pageRead_def
  by (intro leads_bnd leads_getClient leads_option leads_throw leads_browserRead)

lemmas leads_intros =
  leads_bnd leads_thn leads_tryCatch leads_if leads_option leads_prod
  leads_ret leads_throw leads_getClient leads_browserCall leads_browserRead leads_launch
  leads_browserClose leads_pageCall leads_pageRead

lemma leads_simulate: "leads I simulateHumanBehavior_A I"
  unfolding simulateHumanBehavior_A_def by (intro leads_intros)

lemma leads_hasCaptcha: "leads I hasCaptcha_A I"
  unfolding hasCaptcha_A_def by (intro leads_intros)

lemma leads_visitHomepage:
  assumes "\<And>c t. I c \<Longrightarrow> I (c\<lparr>lastHomepageVisit := t\<rparr>)"
  shows "leads I (visitHomepage_A force) I"
  unfolding visitHomepage_A_def
  by (intro leads_intros leads_simulate leads_modifyClient assms)

lemma leads_init: "leads wf_A init_A wf_A"
proof -
  let ?N = "\<lambda>c. \<not> isInitialized c"
  let ?P = "\<lambda>c. page c \<noteq> None"
  let ?tail = "thn (pageCall AddInitScript (\<lambda>_. ()))
              (thn (visitHomepage_A False)
                   (modifyClient (\<lambda>c. c\<lparr>isInitialized := True\<rparr>)))"
  let ?body = "bnd launch (\<lambda>b.
            thn (modifyClient (\<lambda>c. c\<lparr>browser := Some b\<rparr>))
           (thn (browserCall NewContext (\<lambda>_. ()))
           (thn (modifyClient (\<lambda>c. c\<lparr>ctx := Some b\<rparr>))
           (thn (browserCall NewPage (\<lambda>_. ()))
           (thn (modifyClient (\<lambda>c. c\<lparr>page := Some b\<rparr>))
                ?tail)))))"
  have tail: "leads ?P ?tail wf_A"
    by (intro leads_then[where R = ?P] leads_pageCall leads_visitHomepage leads_modifyClient)
       (simp_all add: wf_A_def)
  have body: "leads ?N ?body wf_A"
    apply (rule leads_seq[where R = ?N])
      apply (rule leads_launch)
     apply (rule leads_then[where R = ?N])
       apply (rule leads_modifyClient, simp)
      apply (rule leads_then[where R = ?N])
        apply (rule leads_browserCall)
       apply (rule leads_then[where R = ?N])
         apply (rule leads_modifyClient, simp)
        apply (rule leads_then[where R = ?N])
          apply (rule leads_browserCall)
         apply (rule leads_then[where R = ?P])
           apply (rule leads_modifyClient, simp)
          apply (rule tail)
         apply (simp_all add: wf_A_def)
    done
  show ?thesis
    unfolding leads_def
  proof (intro allI impI)
    fix s :: "client_A \<times> world"
    assume wf: "wf_A (fst s)"
    show "wf_A (fst (snd (init_A s)))"
    proof (cases "isInitialized (fst s)")
      case True
      then have "init_A s = (Inr (), s)"
        by (simp add: init_A_def bnd_def getClient_def ret_def)
      with wf show ?thesis by simp
    next
      case False
      with body have "wf_A (fst (snd (?body s)))"
        unfolding leads_def by blast
      moreover from False have "init_A s = ?body s"
        by (simp add: init_A_def bnd_def[of getClient] getClient_def)
      ultimately show ?thesis by (simp only:)
    qed
  qed
qed

lemma wf_A_lastHomepageVisit: "wf_A c \<Longrightarrow> wf_A (c\<lparr>lastHomepageVisit := t\<rparr>)"
  by (simp add: wf_A_def)

lemmas wf_intros =
  leads_intros leads_init leads_simulate leads_hasCaptcha
  leads_visitHomepage wf_A_lastHomepageVisit

lemma wf_A_constructor: "wf_A constructor_A"
  by (simp add: wf_A_def constructor_A_def)

lemma leads_search: "leads wf_A (search_A query opts) wf_A"
  unfolding search_A_def
  by (intro wf_intros leads_modifyClient)

lemma leads_getProductDetails: "leads wf_A (getProductDetails_A i) wf_A"
  unfolding getProductDetails_A_def
  by (intro wf_intros)

lemma leads_productsLoop: "leads wf_A (productsLoop_A ids results) wf_A"
proof (induction ids arbitrary: results)
  case Nil
  show ?case by (simp add: leads_ret)
next
  case (Cons i ids)
  show ?case
    unfolding productsLoop_A.simps
    by (intro wf_intros leads_getProductDetails Cons.IH)
qed

lemma leads_getProductsList: "leads wf_A (getProductsList_A ids) wf_A"
  unfolding getProductsList_A_def by (rule leads_productsLoop)

lemma leads_close: "leads wf_A close_A wf_A"
  unfolding close_A_def
  by (intro wf_intros leads_then[where R = wf_A] leads_modifyClient) (simp_all add: wf_A_def)

end
